theory Spec2Isabelle
  imports Main "HOL-Library.Word" "HOL-Library.Signed_Division"
begin

unbundle bit_operations_syntax

section \<open>Data model of the LSM303 driver\<close>

text \<open>
  The driver is the class \<open>LSM303\<close> of \<open>LSM303.cpp\<close>. Its fields become a record, its
  enumerations datatypes. A \<open>byte\<close> is an 8-bit word, \<open>int16_t\<close> a 16-bit word and
  \<open>int32_t\<close> a 32-bit word; the width of \<open>unsigned int\<close> depends on the board, so an
  \<open>unsigned int\<close> is a \<open>'w word\<close> for any width \<open>'w\<close>. A register id (\<open>regAddr\<close>) is an
  enumerator, which may be negative, so it is an \<open>int\<close>; the cast \<open>(byte)reg\<close> is
  \<open>word_of_int\<close>.
\<close>

text \<open>
  Modelled from the spec: the header \<open>LSM303.h\<close>, which declares the class, is not among
  the sources. The enumerators of \<open>deviceType\<close> and \<open>sa0State\<close> are those that
  \<open>LSM303.cpp\<close> names (the spec's device variants and address strap), and a vector has
  the three components \<open>x\<close>, \<open>y\<close>, \<open>z\<close> that \<open>LSM303.cpp\<close> reads and writes.
\<close>

type_synonym byte = "8 word"
type_synonym int16_t = "16 word"
type_synonym int32_t = "32 word"
type_synonym regAddr = int

datatype deviceType = device_DLH | device_DLM | device_DLHC | device_D | device_auto

datatype sa0State = sa0_low | sa0_high | sa0_auto

record 'a vector =
  x :: 'a
  y :: 'a
  z :: 'a

text \<open>
  The enumerators of \<open>regAddr\<close> that the modelled functions mention. The header that gives
  them their values is not part of the sources, so they are parameters of the model.
\<close>

record regmap =
  WHO_AM_I :: regAddr
  CTRL_REG1_A :: regAddr
  OUT_X_L_A :: regAddr
  TEMP_OUT_H_M :: regAddr
  TEMP_OUT_L_M :: regAddr
  OUT_X_H_M :: regAddr
  OUT_X_L_M :: regAddr
  OUT_Y_H_M :: regAddr
  OUT_Y_L_M :: regAddr
  OUT_Z_H_M :: regAddr
  OUT_Z_L_M :: regAddr
  D_OUT_X_L_M :: regAddr
  D_OUT_X_H_M :: regAddr
  D_OUT_Y_L_M :: regAddr
  D_OUT_Y_H_M :: regAddr
  D_OUT_Z_L_M :: regAddr
  D_OUT_Z_H_M :: regAddr
  DLHC_OUT_X_H_M :: regAddr
  DLHC_OUT_X_L_M :: regAddr
  DLHC_OUT_Y_H_M :: regAddr
  DLHC_OUT_Y_L_M :: regAddr
  DLHC_OUT_Z_H_M :: regAddr
  DLHC_OUT_Z_L_M :: regAddr
  DLM_OUT_X_H_M :: regAddr
  DLM_OUT_X_L_M :: regAddr
  DLM_OUT_Y_H_M :: regAddr
  DLM_OUT_Y_L_M :: regAddr
  DLM_OUT_Z_H_M :: regAddr
  DLM_OUT_Z_L_M :: regAddr
  DLH_OUT_X_H_M :: regAddr
  DLH_OUT_X_L_M :: regAddr
  DLH_OUT_Y_H_M :: regAddr
  DLH_OUT_Y_L_M :: regAddr
  DLH_OUT_Z_H_M :: regAddr
  DLH_OUT_Z_L_M :: regAddr

text \<open>
  Modelled from the spec: the fields of the class that \<open>LSM303.cpp\<close> uses, whose
  declarations are in the missing header. The samples \<open>a\<close> and \<open>m\<close> and the calibration
  bounds \<open>m_max\<close> and \<open>m_min\<close> are vectors of signed 16-bit integers, as the spec's data
  model says and as the casts to \<open>int16_t\<close> and \<open>int32_t\<close> in \<open>LSM303.cpp\<close> presume; the
  addresses and the status are bytes; the translated register addresses are register
  ids. The field \<open>_device\<close> is \<open>this_device\<close> here, and the type parameter \<open>'u\<close> is the
  type \<open>unsigned int\<close> of \<open>io_timeout\<close>.
\<close>

record 'u LSM303 =
  a :: "int16_t vector"
  m :: "int16_t vector"
  m_max :: "int16_t vector"
  m_min :: "int16_t vector"
  last_status :: byte
  this_device :: deviceType
  acc_address :: byte
  mag_address :: byte
  out_x_l_m :: regAddr
  out_x_h_m :: regAddr
  out_y_l_m :: regAddr
  out_y_h_m :: regAddr
  out_z_l_m :: regAddr
  out_z_h_m :: regAddr
  io_timeout :: 'u
  did_timeout :: bool

subsection \<open>The constants of the source file\<close>

definition D_SA0_HIGH_ADDRESS :: byte where
  "D_SA0_HIGH_ADDRESS = 0x1D"

definition D_SA0_LOW_ADDRESS :: byte where
  "D_SA0_LOW_ADDRESS = 0x1E"

definition NON_D_MAG_ADDRESS :: byte where
  "NON_D_MAG_ADDRESS = 0x1E"

definition NON_D_ACC_SA0_LOW_ADDRESS :: byte where
  "NON_D_ACC_SA0_LOW_ADDRESS = 0x18"

definition NON_D_ACC_SA0_HIGH_ADDRESS :: byte where
  "NON_D_ACC_SA0_HIGH_ADDRESS = 0x19"

definition TEST_REG_NACK :: int where
  "TEST_REG_NACK = - 1"

definition D_WHO_ID :: int where
  "D_WHO_ID = 0x49"

definition DLM_WHO_ID :: int where
  "DLM_WHO_ID = 0x3C"

section \<open>Constructor\<close>

text \<open>
  The constructor assigns six calibration components, the device type, the timeout and
  the timeout flag. Every other field keeps what the memory held, which is the argument.
\<close>

definition LSM303_ctor :: "'w::len word LSM303 \<Rightarrow> 'w word LSM303" where
  "LSM303_ctor s0 =
     s0\<lparr>m_max := \<lparr>x = 32767, y = 32767, z = 32767\<rparr>,
        m_min := \<lparr>x = - 32767, y = - 32767, z = - 32767\<rparr>,
        this_device := device_auto,
        io_timeout := 0,
        did_timeout := False\<rparr>"

section \<open>Probing the bus: \<open>testReg\<close> and \<open>init\<close>\<close>

text \<open>
  \<open>Wire\<close> is an external collaborator. A probe writes one register byte to a bus
  address and asks for one byte back. The bus is an oracle: for the \<open>k\<close>-th probe of a
  call of \<open>init\<close>, made at an address for a register byte, it gives the status that
  \<open>Wire.endTransmission\<close> returns and the byte that \<open>Wire.read\<close> returns, or \<open>None\<close>
  when \<open>Wire.available\<close> is zero. The index makes a scripted sequence of responses
  expressible, the address and the register byte a device that answers by address.
\<close>

type_synonym probe_bus = "nat \<Rightarrow> byte \<Rightarrow> byte \<Rightarrow> byte \<times> byte option"

definition testReg :: "probe_bus \<Rightarrow> nat \<Rightarrow> 'u LSM303 \<Rightarrow> byte \<Rightarrow> regAddr \<Rightarrow> int \<times> 'u LSM303" where
  "testReg w k s address reg =
     (let (status, rx) = w k address (word_of_int reg)
      in (case rx of Some b \<Rightarrow> uint b | None \<Rightarrow> TEST_REG_NACK, s\<lparr>last_status := status\<rparr>))"

text \<open>
  \<open>init\<close>, first block: determine the device type if necessary. The result is the pair
  of the locals \<open>device\<close> and \<open>sa0\<close>, or \<open>None\<close> where the source executes
  \<open>return false\<close>, together with the number of probes made and the object.
\<close>

definition init_device ::
  "regmap \<Rightarrow> probe_bus \<Rightarrow> 'u LSM303 \<Rightarrow> deviceType \<Rightarrow> sa0State
     \<Rightarrow> (deviceType \<times> sa0State) option \<times> nat \<times> 'u LSM303" where
  "init_device c w s device sa0 =
     (if device = device_auto then
        (let (r1, s1) = testReg w 0 s D_SA0_HIGH_ADDRESS (WHO_AM_I c) in
         if r1 = D_WHO_ID then (Some (device_D, sa0_high), 1, s1)
         else
           (let (r2, s2) = testReg w 1 s1 D_SA0_LOW_ADDRESS (WHO_AM_I c) in
            if r2 = D_WHO_ID then (Some (device_D, sa0_low), 2, s2)
            else if r2 = DLM_WHO_ID then (Some (device_DLM, sa0), 2, s2)
            else
              (let (r3, s3) = testReg w 2 s2 NON_D_ACC_SA0_HIGH_ADDRESS (CTRL_REG1_A c) in
               if r3 \<noteq> TEST_REG_NACK then (Some (device_DLHC, sa0_high), 3, s3)
               else
                 (let (r4, s4) = testReg w 3 s3 NON_D_ACC_SA0_LOW_ADDRESS (CTRL_REG1_A c) in
                  if r4 \<noteq> TEST_REG_NACK then (Some (device_DLH, sa0_low), 4, s4)
                  else (None, 4, s4)))))
      else (Some (device, sa0), 0, s))"

text \<open>
  \<open>init\<close>, second block: determine SA0 if necessary. \<open>n\<close> is the number of probes made
  so far. Both probes of the \<open>device_D\<close> branch go to \<open>D_SA0_HIGH_ADDRESS\<close>, as in the
  source.
\<close>

definition init_sa0 ::
  "regmap \<Rightarrow> probe_bus \<Rightarrow> nat \<Rightarrow> 'u LSM303 \<Rightarrow> deviceType \<Rightarrow> sa0State
     \<Rightarrow> sa0State option \<times> 'u LSM303" where
  "init_sa0 c w n s device sa0 =
     (if sa0 = sa0_auto then
        (if device = device_D then
           (let (r1, s1) = testReg w n s D_SA0_HIGH_ADDRESS (WHO_AM_I c) in
            if r1 = D_WHO_ID then (Some sa0_high, s1)
            else
              (let (r2, s2) = testReg w (n + 1) s1 D_SA0_HIGH_ADDRESS (WHO_AM_I c) in
               if r2 = D_WHO_ID then (Some sa0_low, s2)
               else (None, s2)))
         else if device = device_DLM \<or> device = device_DLH then
           (let (r1, s1) = testReg w n s NON_D_ACC_SA0_HIGH_ADDRESS (CTRL_REG1_A c) in
            if r1 \<noteq> TEST_REG_NACK then (Some sa0_high, s1)
            else
              (let (r2, s2) = testReg w (n + 1) s1 NON_D_ACC_SA0_LOW_ADDRESS (CTRL_REG1_A c) in
               if r2 \<noteq> TEST_REG_NACK then (Some sa0_low, s2)
               else (None, s2)))
         else (Some sa0, s))
      else (Some sa0, s))"

text \<open>
  \<open>init\<close>, third block: store the device type, then set the device addresses and the
  translated register addresses. The \<open>switch\<close> has no case for \<open>device_auto\<close>.
\<close>

definition init_addresses :: "regmap \<Rightarrow> 'u LSM303 \<Rightarrow> deviceType \<Rightarrow> sa0State \<Rightarrow> 'u LSM303" where
  "init_addresses c s device sa0 =
     (let s = s\<lparr>this_device := device\<rparr> in
      case device of
        device_D \<Rightarrow>
          s\<lparr>acc_address := (if sa0 = sa0_high then D_SA0_HIGH_ADDRESS else D_SA0_LOW_ADDRESS),
            mag_address := (if sa0 = sa0_high then D_SA0_HIGH_ADDRESS else D_SA0_LOW_ADDRESS),
            out_x_l_m := D_OUT_X_L_M c,
            out_x_h_m := D_OUT_X_H_M c,
            out_y_l_m := D_OUT_Y_L_M c,
            out_y_h_m := D_OUT_Y_H_M c,
            out_z_l_m := D_OUT_Z_L_M c,
            out_z_h_m := D_OUT_Z_H_M c\<rparr>
      | device_DLHC \<Rightarrow>
          s\<lparr>acc_address := NON_D_ACC_SA0_HIGH_ADDRESS,
            mag_address := NON_D_MAG_ADDRESS,
            out_x_h_m := DLHC_OUT_X_H_M c,
            out_x_l_m := DLHC_OUT_X_L_M c,
            out_y_h_m := DLHC_OUT_Y_H_M c,
            out_y_l_m := DLHC_OUT_Y_L_M c,
            out_z_h_m := DLHC_OUT_Z_H_M c,
            out_z_l_m := DLHC_OUT_Z_L_M c\<rparr>
      | device_DLM \<Rightarrow>
          s\<lparr>acc_address :=
              (if sa0 = sa0_high then NON_D_ACC_SA0_HIGH_ADDRESS else NON_D_ACC_SA0_LOW_ADDRESS),
            mag_address := NON_D_MAG_ADDRESS,
            out_x_h_m := DLM_OUT_X_H_M c,
            out_x_l_m := DLM_OUT_X_L_M c,
            out_y_h_m := DLM_OUT_Y_H_M c,
            out_y_l_m := DLM_OUT_Y_L_M c,
            out_z_h_m := DLM_OUT_Z_H_M c,
            out_z_l_m := DLM_OUT_Z_L_M c\<rparr>
      | device_DLH \<Rightarrow>
          s\<lparr>acc_address :=
              (if sa0 = sa0_high then NON_D_ACC_SA0_HIGH_ADDRESS else NON_D_ACC_SA0_LOW_ADDRESS),
            mag_address := NON_D_MAG_ADDRESS,
            out_x_h_m := DLH_OUT_X_H_M c,
            out_x_l_m := DLH_OUT_X_L_M c,
            out_y_h_m := DLH_OUT_Y_H_M c,
            out_y_l_m := DLH_OUT_Y_L_M c,
            out_z_h_m := DLH_OUT_Z_H_M c,
            out_z_l_m := DLH_OUT_Z_L_M c\<rparr>
      | device_auto \<Rightarrow> s)"

text \<open>
  \<open>init\<close> as a whole. Its result is \<open>Some b\<close> where the source executes \<open>return b\<close>.
  The only \<open>return\<close> statements of the source are the three \<open>return false\<close>; after the
  \<open>switch\<close> control reaches the closing brace of the function without a \<open>return\<close>, and
  the result is \<open>None\<close>: the caller receives no value that the function has set.
\<close>

definition init ::
  "regmap \<Rightarrow> probe_bus \<Rightarrow> 'u LSM303 \<Rightarrow> deviceType \<Rightarrow> sa0State \<Rightarrow> bool option \<times> 'u LSM303" where
  "init c w s device sa0 =
     (case init_device c w s device sa0 of
        (None, n, s1) \<Rightarrow> (Some False, s1)
      | (Some (device1, sa01), n, s1) \<Rightarrow>
          (case init_sa0 c w n s1 device1 sa01 of
             (None, s2) \<Rightarrow> (Some False, s2)
           | (Some sa02, s2) \<Rightarrow> (None, init_addresses c s2 device1 sa02)))"

section \<open>Single register access\<close>

text \<open>
  A register write sends the register byte and the value to an address; the bus gives the
  status of \<open>Wire.endTransmission\<close>. A register read sends the register byte and asks for
  one byte; the bus gives the status and the result of \<open>Wire.read\<close> as stored in a byte.
\<close>

type_synonym write_bus = "byte \<Rightarrow> byte \<Rightarrow> byte \<Rightarrow> byte"
type_synonym read_bus = "byte \<Rightarrow> byte \<Rightarrow> byte \<times> byte"

definition writeAccReg :: "write_bus \<Rightarrow> 'u LSM303 \<Rightarrow> regAddr \<Rightarrow> byte \<Rightarrow> 'u LSM303" where
  "writeAccReg w s reg val = s\<lparr>last_status := w (acc_address s) (word_of_int reg) val\<rparr>"

definition readAccReg :: "read_bus \<Rightarrow> 'u LSM303 \<Rightarrow> regAddr \<Rightarrow> byte \<times> 'u LSM303" where
  "readAccReg w s reg =
     (let (status, val) = w (acc_address s) (word_of_int reg)
      in (val, s\<lparr>last_status := status\<rparr>))"

definition writeMagReg :: "write_bus \<Rightarrow> 'u LSM303 \<Rightarrow> regAddr \<Rightarrow> byte \<Rightarrow> 'u LSM303" where
  "writeMagReg w s reg val = s\<lparr>last_status := w (mag_address s) (word_of_int reg) val\<rparr>"

text \<open>The \<open>if (reg < 0)\<close> block of \<open>readMagReg\<close>: the register id after the \<open>switch\<close>.\<close>

definition readMagReg_translate :: "regmap \<Rightarrow> 'u LSM303 \<Rightarrow> regAddr \<Rightarrow> regAddr" where
  "readMagReg_translate c s reg =
     (if reg < 0 then
        (if reg = OUT_X_H_M c then out_x_h_m s
         else if reg = OUT_X_L_M c then out_x_l_m s
         else if reg = OUT_Y_H_M c then out_y_h_m s
         else if reg = OUT_Y_L_M c then out_y_l_m s
         else if reg = OUT_Z_H_M c then out_z_h_m s
         else if reg = OUT_Z_L_M c then out_z_l_m s
         else reg)
      else reg)"

definition readMagReg :: "regmap \<Rightarrow> read_bus \<Rightarrow> 'u LSM303 \<Rightarrow> regAddr \<Rightarrow> byte \<times> 'u LSM303" where
  "readMagReg c w s reg =
     (let reg = readMagReg_translate c s reg;
          (status, val) = w (mag_address s) (word_of_int reg)
      in (val, s\<lparr>last_status := status\<rparr>))"

text \<open>
  The condition of \<open>writeReg\<close> and \<open>readReg\<close>. Its last operand is the enumerator
  \<open>TEMP_OUT_L_M\<close> itself, which C++ reads as true when it is not zero.
\<close>

definition writeReg :: "regmap \<Rightarrow> write_bus \<Rightarrow> 'u LSM303 \<Rightarrow> regAddr \<Rightarrow> byte \<Rightarrow> 'u LSM303" where
  "writeReg c w s reg val =
     (if this_device s = device_D \<or> reg < CTRL_REG1_A c \<or> reg = TEMP_OUT_H_M c
         \<or> TEMP_OUT_L_M c \<noteq> 0
      then writeMagReg w s reg val
      else writeAccReg w s reg val)"

definition readReg :: "regmap \<Rightarrow> read_bus \<Rightarrow> 'u LSM303 \<Rightarrow> regAddr \<Rightarrow> byte \<times> 'u LSM303" where
  "readReg c w s reg =
     (if this_device s = device_D \<or> reg < CTRL_REG1_A c \<or> reg = TEMP_OUT_H_M c
         \<or> TEMP_OUT_L_M c \<noteq> 0
      then readMagReg c w s reg
      else readAccReg w s reg)"

section \<open>Burst reads: \<open>readAcc\<close> and \<open>readMag\<close>\<close>

text \<open>
  What the bus and the clock answer during one burst read: the status of
  \<open>Wire.endTransmission\<close>, the value of the \<open>k\<close>-th call of \<open>Wire.available\<close>, the value
  of the \<open>k\<close>-th call of \<open>millis\<close> as an \<open>unsigned int\<close> (call 0 sets \<open>millis_start\<close>),
  and the value of the \<open>k\<close>-th call of \<open>Wire.read\<close> as stored in a byte. A bus maps the
  address and the register byte of the request to such an answer.
\<close>

record 'u burst =
  Wire_endTransmission :: byte
  Wire_available :: "nat \<Rightarrow> int"
  millis :: "nat \<Rightarrow> 'u"
  Wire_read :: "nat \<Rightarrow> byte"

type_synonym 'u burst_bus = "byte \<Rightarrow> byte \<Rightarrow> 'u burst"

text \<open>
  The condition of the \<open>if\<close> in the polling loop, in its \<open>k\<close>-th iteration:
  \<open>io_timeout > 0 && ((unsigned int)millis() - millis_start) > io_timeout\<close>, where
  \<open>millis_start\<close> is the value of call 0 of \<open>millis\<close>. The subtraction and the
  comparison are those of \<open>unsigned int\<close>. \<open>millis\<close> is called in the loop only when
  \<open>io_timeout > 0\<close>, once in each iteration.
\<close>

definition timeout_elapsed :: "'w::len word burst \<Rightarrow> 'w word \<Rightarrow> nat \<Rightarrow> bool" where
  "timeout_elapsed b timeout k \<longleftrightarrow> timeout > 0 \<and> millis b (Suc k) - millis b 0 > timeout"

text \<open>
  The polling loop \<open>while (Wire.available() < 6)\<close>, from its \<open>k\<close>-th iteration on. The
  result is \<open>Some True\<close> when the loop is left by the timeout, \<open>Some False\<close> when it is
  left because 6 bytes are available, and \<open>None\<close> when it is never left.
\<close>

partial_function (option) wait_available ::
  "'w::len word burst \<Rightarrow> 'w word \<Rightarrow> nat \<Rightarrow> bool option" where
  "wait_available b timeout k =
     (if Wire_available b k < 6 then
        (if timeout_elapsed b timeout k then Some True
         else wait_available b timeout (Suc k))
      else Some False)"

text \<open>\<open>(int16_t)(hi << 8 | lo)\<close>: the bytes are promoted to \<open>int\<close>, the result is cast.\<close>

definition int16_of_bytes :: "byte \<Rightarrow> byte \<Rightarrow> int16_t" where
  "int16_of_bytes hi lo = word_of_int (push_bit 8 (uint hi) OR uint lo)"

text \<open>
  The request of \<open>readAcc\<close>, up to \<open>Wire.requestFrom\<close>: the register byte
  \<open>OUT_X_L_A | (1 << 7)\<close> goes to \<open>acc_address\<close>. The result is the answer of the bus.
\<close>

definition readAcc_burst :: "regmap \<Rightarrow> 'u burst_bus \<Rightarrow> 'u LSM303 \<Rightarrow> 'u burst" where
  "readAcc_burst c w s = w (acc_address s) (word_of_int (OUT_X_L_A c OR push_bit 7 1))"

definition readAcc :: "regmap \<Rightarrow> 'w::len word burst_bus \<Rightarrow> 'w word LSM303 \<Rightarrow> 'w word LSM303 option" where
  "readAcc c w s =
     (let b = readAcc_burst c w s;
          s = s\<lparr>last_status := Wire_endTransmission b\<rparr>;
          s = s\<lparr>did_timeout := False\<rparr>
      in case wait_available b (io_timeout s) 0 of
           None \<Rightarrow> None
         | Some True \<Rightarrow> Some (s\<lparr>did_timeout := True\<rparr>)
         | Some False \<Rightarrow>
             (let xla = Wire_read b 0;
                  xha = Wire_read b 1;
                  yla = Wire_read b 2;
                  yha = Wire_read b 3;
                  zla = Wire_read b 4;
                  zha = Wire_read b 5;
                  s = s\<lparr>a := \<lparr>x = int16_of_bytes xha xla,
                              y = int16_of_bytes yha yla,
                              z = int16_of_bytes zha zla\<rparr>\<rparr>
              in Some (if this_device s \<noteq> device_D
                       then s\<lparr>a := \<lparr>x = signed_drop_bit 4 (x (a s)),
                                     y = signed_drop_bit 4 (y (a s)),
                                     z = signed_drop_bit 4 (z (a s))\<rparr>\<rparr>
                       else s)))"

text \<open>
  The bytes of \<open>readMag\<close> in the order \<open>(xlm, xhm, ylm, yhm, zlm, zhm)\<close>, given the six
  results of \<open>Wire.read\<close> in the order of the calls.
\<close>

definition readMag_bytes ::
  "deviceType \<Rightarrow> (nat \<Rightarrow> byte) \<Rightarrow> byte \<times> byte \<times> byte \<times> byte \<times> byte \<times> byte" where
  "readMag_bytes device rd =
     (if device = device_D then (rd 0, rd 1, rd 2, rd 3, rd 4, rd 5)
      else
        (let xhm = rd 0; xlm = rd 1 in
         if device = device_DLH then
           (let yhm = rd 2; ylm = rd 3; zhm = rd 4; zlm = rd 5
            in (xlm, xhm, ylm, yhm, zlm, zhm))
         else
           (let zhm = rd 2; zlm = rd 3; yhm = rd 4; ylm = rd 5
            in (xlm, xhm, ylm, yhm, zlm, zhm))))"

text \<open>
  The request of \<open>readMag\<close>, up to \<open>Wire.requestFrom\<close>: the register byte is
  \<open>out_x_l_m | (1 << 7)\<close> on a \<open>device_D\<close> and \<open>out_x_h_m\<close> on the others, and goes to
  \<open>mag_address\<close>.
\<close>

definition readMag_burst :: "'u burst_bus \<Rightarrow> 'u LSM303 \<Rightarrow> 'u burst" where
  "readMag_burst w s =
     w (mag_address s)
       (word_of_int (if this_device s = device_D then out_x_l_m s OR push_bit 7 1
                     else out_x_h_m s))"

definition readMag :: "'w::len word burst_bus \<Rightarrow> 'w word LSM303 \<Rightarrow> 'w word LSM303 option" where
  "readMag w s =
     (let b = readMag_burst w s;
          s = s\<lparr>last_status := Wire_endTransmission b\<rparr>;
          s = s\<lparr>did_timeout := False\<rparr>
      in case wait_available b (io_timeout s) 0 of
           None \<Rightarrow> None
         | Some True \<Rightarrow> Some (s\<lparr>did_timeout := True\<rparr>)
         | Some False \<Rightarrow>
             (let (xlm, xhm, ylm, yhm, zlm, zhm) = readMag_bytes (this_device s) (Wire_read b)
              in Some (s\<lparr>m := \<lparr>x = int16_of_bytes xhm xlm,
                                 y = int16_of_bytes yhm ylm,
                                 z = int16_of_bytes zhm zlm\<rparr>\<rparr>)))"

section \<open>Heading: the calibration offset\<close>

text \<open>
  Division of two \<open>int32_t\<close> values truncates towards zero in C++, which is \<open>sdiv\<close> on
  the signed values.
\<close>

definition int32_div :: "int32_t \<Rightarrow> int32_t \<Rightarrow> int32_t" where
  "int32_div p q = word_of_int (sint p sdiv sint q)"

text \<open>
  \<open>((int32_t)lo + hi) / 2\<close> for two \<open>int16_t\<close> calibration bounds: both are sign-extended
  to 32 bits, then added and halved in 32 bits.
\<close>

definition heading_offset :: "int16_t \<Rightarrow> int16_t \<Rightarrow> int32_t" where
  "heading_offset lo hi = int32_div (scast lo + scast hi) 2"

text \<open>
  The integer part of \<open>heading\<close>: the vector \<open>temp_m\<close> after the three subtractions. The
  rest of \<open>heading\<close> is floating-point arithmetic and is not modelled.
\<close>

definition heading_temp_m :: "'u LSM303 \<Rightarrow> int32_t vector" where
  "heading_temp_m s =
     (let temp_m = \<lparr>x = scast (x (m s)), y = scast (y (m s)), z = scast (z (m s))\<rparr> :: int32_t vector
      in \<lparr>x = x temp_m - heading_offset (x (m_min s)) (x (m_max s)),
          y = y temp_m - heading_offset (y (m_min s)) (y (m_max s)),
          z = z temp_m - heading_offset (z (m_min s)) (z (m_max s))\<rparr>)"

section \<open>Sample inputs\<close>

text \<open>
  An instance of the register parameters, for evaluating the model: the six dummy ids of
  the magnetometer output registers are the numbers \<open>-1\<close> to \<open>-6\<close>, the other values are
  the register addresses of the data sheets of the four devices. Only the evaluations
  that name this instance depend on these values.
\<close>

definition datasheet_regmap :: regmap where
  "datasheet_regmap =
     \<lparr>WHO_AM_I = 0x0F, CTRL_REG1_A = 0x20, OUT_X_L_A = 0x28,
      TEMP_OUT_H_M = 0x31, TEMP_OUT_L_M = 0x32,
      OUT_X_H_M = - 1, OUT_X_L_M = - 2, OUT_Y_H_M = - 3,
      OUT_Y_L_M = - 4, OUT_Z_H_M = - 5, OUT_Z_L_M = - 6,
      D_OUT_X_L_M = 0x08, D_OUT_X_H_M = 0x09, D_OUT_Y_L_M = 0x0A,
      D_OUT_Y_H_M = 0x0B, D_OUT_Z_L_M = 0x0C, D_OUT_Z_H_M = 0x0D,
      DLHC_OUT_X_H_M = 0x03, DLHC_OUT_X_L_M = 0x04, DLHC_OUT_Y_H_M = 0x07,
      DLHC_OUT_Y_L_M = 0x08, DLHC_OUT_Z_H_M = 0x05, DLHC_OUT_Z_L_M = 0x06,
      DLM_OUT_X_H_M = 0x03, DLM_OUT_X_L_M = 0x04, DLM_OUT_Y_H_M = 0x07,
      DLM_OUT_Y_L_M = 0x08, DLM_OUT_Z_H_M = 0x05, DLM_OUT_Z_L_M = 0x06,
      DLH_OUT_X_H_M = 0x03, DLH_OUT_X_L_M = 0x04, DLH_OUT_Y_H_M = 0x05,
      DLH_OUT_Y_L_M = 0x06, DLH_OUT_Z_H_M = 0x07, DLH_OUT_Z_L_M = 0x08\<rparr>"

text \<open>
  An object on a board with a 16-bit \<open>unsigned int\<close>: the constructor has run on zeroed
  memory. In \<open>sample_object\<close> the samples hold the values of an earlier read, the device
  type is given and the timeout is 15 ms.
\<close>

definition fresh_object :: "16 word LSM303" where
  "fresh_object =
     LSM303_ctor
       \<lparr>a = \<lparr>x = 0, y = 0, z = 0\<rparr>, m = \<lparr>x = 0, y = 0, z = 0\<rparr>,
        m_max = \<lparr>x = 0, y = 0, z = 0\<rparr>, m_min = \<lparr>x = 0, y = 0, z = 0\<rparr>,
        last_status = 0, this_device = device_DLH, acc_address = 0, mag_address = 0,
        out_x_l_m = 0, out_x_h_m = 0, out_y_l_m = 0, out_y_h_m = 0,
        out_z_l_m = 0, out_z_h_m = 0, io_timeout = 0, did_timeout = False\<rparr>"

definition sample_object :: "deviceType \<Rightarrow> 16 word LSM303" where
  "sample_object device =
     fresh_object\<lparr>a := \<lparr>x = 1, y = 2, z = 3\<rparr>, m := \<lparr>x = 4, y = 5, z = 6\<rparr>,
                  this_device := device, io_timeout := 15\<rparr>"

text \<open>
  A burst in which the six bytes \<open>0x34, 0x12, 0xF0, 0xFF, 0x07, 0x80\<close> are available
  from the second poll on, and a burst in which only three bytes ever arrive while the
  16-bit clock advances by 10 ms between calls and wraps around.
\<close>

definition late_burst :: "16 word burst" where
  "late_burst =
     \<lparr>Wire_endTransmission = 0,
      Wire_available = (\<lambda>k. if k < 1 then 4 else 6),
      millis = (\<lambda>k. 100 + word_of_nat k),
      Wire_read = (\<lambda>k. if k < 6 then [0x34, 0x12, 0xF0, 0xFF, 0x07, 0x80] ! k else 0xFF)\<rparr>"

definition stalled_burst :: "16 word burst" where
  "stalled_burst =
     \<lparr>Wire_endTransmission = 0,
      Wire_available = (\<lambda>k. 3),
      millis = (\<lambda>k. 65526 + 10 * word_of_nat k),
      Wire_read = (\<lambda>k. 0xFF)\<rparr>"

text \<open>
  Buses for \<open>init\<close>. On \<open>silent_bus\<close> no device answers: every transmission ends with
  status 2 and no byte arrives. \<open>D_high_bus\<close> and \<open>D_low_bus\<close> are an LSM303D strapped
  high and low: it answers at its one address, with \<open>0x49\<close> for register \<open>0x0F\<close>.
  \<open>DLHC_acc_bus\<close> answers only at the accelerometer address \<open>0x19\<close>, and \<open>DLH_low_bus\<close>
  only at the accelerometer address \<open>0x18\<close>.
\<close>

definition silent_bus :: probe_bus where
  "silent_bus k address reg = (2, None)"

definition D_high_bus :: probe_bus where
  "D_high_bus k address reg =
     (if address = 0x1D then (0, Some (if reg = 0x0F then 0x49 else 0)) else (2, None))"

definition D_low_bus :: probe_bus where
  "D_low_bus k address reg =
     (if address = 0x1E then (0, Some (if reg = 0x0F then 0x49 else 0)) else (2, None))"

definition DLHC_acc_bus :: probe_bus where
  "DLHC_acc_bus k address reg = (if address = 0x19 then (0, Some 0x07) else (2, None))"

definition DLH_low_bus :: probe_bus where
  "DLH_low_bus k address reg = (if address = 0x18 then (0, Some 0x07) else (2, None))"

text \<open>
  The object after the third block of \<open>init\<close> for a given device and strap, and buses
  for single register accesses that make the request visible: a read gives the address
  as the status and the register byte as the value, a write gives the address or the
  register byte as the status.
\<close>

definition initialised_object :: "deviceType \<Rightarrow> sa0State \<Rightarrow> 16 word LSM303" where
  "initialised_object device sa0 = init_addresses datasheet_regmap fresh_object device sa0"

definition request_read_bus :: read_bus where
  "request_read_bus address reg = (address, reg)"

definition address_write_bus :: write_bus where
  "address_write_bus address reg val = address"

definition register_write_bus :: write_bus where
  "register_write_bus address reg val = reg"

section \<open>The constructor\<close>

text \<open>
  C9. A freshly constructed object has the calibration bounds \<open>-32767\<close> and \<open>+32767\<close> on
  every axis, so that the heading offset of every axis is exactly zero; its device type is
  \<open>device_auto\<close>, its timeout is 0 (no timeout) and its timeout flag is false. This holds
  whatever the memory of the object held before.
\<close>

theorem ctor_initial_state:
  "m_min (LSM303_ctor s0) = \<lparr>x = - 32767, y = - 32767, z = - 32767\<rparr>
   \<and> m_max (LSM303_ctor s0) = \<lparr>x = 32767, y = 32767, z = 32767\<rparr>
   \<and> sint (x (m_min (LSM303_ctor s0))) = - 32767 \<and> sint (x (m_max (LSM303_ctor s0))) = 32767
   \<and> heading_offset (x (m_min (LSM303_ctor s0))) (x (m_max (LSM303_ctor s0))) = 0
   \<and> heading_offset (y (m_min (LSM303_ctor s0))) (y (m_max (LSM303_ctor s0))) = 0
   \<and> heading_offset (z (m_min (LSM303_ctor s0))) (z (m_max (LSM303_ctor s0))) = 0
   \<and> this_device (LSM303_ctor s0) = device_auto
   \<and> io_timeout (LSM303_ctor s0) = 0
   \<and> \<not> did_timeout (LSM303_ctor s0)"
  by (simp add: LSM303_ctor_def heading_offset_def int32_div_def)

section \<open>The calibration offset of \<open>heading\<close>\<close>

lemma sint16_bounds: "- 32768 \<le> sint (v :: int16_t) \<and> sint v \<le> 32767"
  using sint_ge [of v] sint_lt [of v] by simp

lemma sint_scast_16_32: "sint (scast (v :: int16_t) :: int32_t) = sint v"
  by (simp add: sint_up_scast is_up)

lemma sint_word_of_int_32:
  "- 2147483648 \<le> k \<Longrightarrow> k \<le> 2147483647 \<Longrightarrow> sint (word_of_int k :: int32_t) = k"
  by (simp add: signed_of_int signed_take_bit_int_eq_self)

lemma sint_sum_16_32:
  "sint ((scast (lo :: int16_t) :: int32_t) + scast (hi :: int16_t)) = sint lo + sint hi"
proof -
  have "sint ((scast lo :: int32_t) + scast hi) = signed_take_bit 31 (sint lo + sint hi)"
    by (simp add: sint_word_ariths sint_scast_16_32)
  also have "\<dots> = sint lo + sint hi"
    using sint16_bounds [of lo] sint16_bounds [of hi]
    by (intro signed_take_bit_int_eq_self) simp_all
  finally show ?thesis .
qed

lemma sdiv_2_bounds: "- 65536 \<le> (k::int) \<Longrightarrow> k \<le> 65534 \<Longrightarrow> - 32768 \<le> k sdiv 2 \<and> k sdiv 2 \<le> 32767"
  by (auto simp: signed_divide_int_def sgn_if)

lemma sint_heading_offset: "sint (heading_offset lo hi) = (sint lo + sint hi) sdiv 2"
proof -
  have b: "- 32768 \<le> (sint lo + sint hi) sdiv 2 \<and> (sint lo + sint hi) sdiv 2 \<le> 32767"
    using sint16_bounds [of lo] sint16_bounds [of hi] by (intro sdiv_2_bounds) simp_all
  have "sint (heading_offset lo hi) = sint (word_of_int ((sint lo + sint hi) sdiv 2) :: int32_t)"
    by (simp add: heading_offset_def int32_div_def sint_sum_16_32)
  also have "\<dots> = (sint lo + sint hi) sdiv 2"
    using b by (intro sint_word_of_int_32) simp_all
  finally show ?thesis .
qed

lemma heading_offset_bounds: "- 32768 \<le> sint (heading_offset lo hi) \<and> sint (heading_offset lo hi) \<le> 32767"
  using sint16_bounds [of lo] sint16_bounds [of hi]
  unfolding sint_heading_offset by (intro sdiv_2_bounds) simp_all

lemma sint_sub_offset:
  "sint ((scast (v :: int16_t) :: int32_t) - heading_offset lo hi) = sint v - (sint lo + sint hi) sdiv 2"
proof -
  have "sint ((scast v :: int32_t) - heading_offset lo hi)
          = signed_take_bit 31 (sint v - sint (heading_offset lo hi))"
    by (simp add: sint_word_ariths sint_scast_16_32)
  also have "\<dots> = sint v - sint (heading_offset lo hi)"
    using sint16_bounds [of v] heading_offset_bounds [of lo hi]
    by (intro signed_take_bit_int_eq_self) simp_all
  finally show ?thesis by (simp add: sint_heading_offset)
qed

text \<open>
  C8. For all calibration bounds, the offset that \<open>heading\<close> subtracts from an axis is
  the mathematical value of \<open>(min + max) / 2\<close>, rounded towards zero as C++ divides: the
  32-bit sum does not wrap around, also when both bounds are at an end of the 16-bit
  range, and neither does the subtraction from the sample.
\<close>

theorem heading_offset_no_overflow:
  "sint (heading_offset lo hi) = (sint lo + sint hi) sdiv 2
   \<and> sint (x (heading_temp_m s)) = sint (x (m s)) - (sint (x (m_min s)) + sint (x (m_max s))) sdiv 2
   \<and> sint (y (heading_temp_m s)) = sint (y (m s)) - (sint (y (m_min s)) + sint (y (m_max s))) sdiv 2
   \<and> sint (z (heading_temp_m s)) = sint (z (m s)) - (sint (z (m_min s)) + sint (z (m_max s))) sdiv 2
   \<and> sint (heading_offset 32767 32767) = 32767
   \<and> sint (heading_offset (- 32768) (- 32768)) = - 32768"
  by (simp add: sint_heading_offset sint_sub_offset heading_temp_m_def Let_def signed_divide_int_def)


section \<open>The polling loop\<close>

lemma wait_available_timeout:
  "\<forall>j\<le>n. Wire_available b (k + j) < 6 \<Longrightarrow> \<forall>j<n. \<not> timeout_elapsed b t (k + j)
     \<Longrightarrow> timeout_elapsed b t (k + n) \<Longrightarrow> wait_available b t k = Some True"
proof (induction n arbitrary: k)
  case 0
  then show ?case by (simp add: wait_available.simps [of b t k])
next
  case (Suc n)
  have now: "Wire_available b k < 6" "\<not> timeout_elapsed b t k"
    using Suc.prems(1) [rule_format, of 0] Suc.prems(2) [rule_format, of 0] by simp_all
  have "wait_available b t (Suc k) = Some True"
  proof (rule Suc.IH)
    show "\<forall>j\<le>n. Wire_available b (Suc k + j) < 6"
    proof (intro allI impI)
      fix j assume "j \<le> n"
      with Suc.prems(1) [rule_format, of "Suc j"] show "Wire_available b (Suc k + j) < 6"
        by simp
    qed
    show "\<forall>j<n. \<not> timeout_elapsed b t (Suc k + j)"
    proof (intro allI impI)
      fix j assume "j < n"
      with Suc.prems(2) [rule_format, of "Suc j"] show "\<not> timeout_elapsed b t (Suc k + j)"
        by simp
    qed
    show "timeout_elapsed b t (Suc k + n)"
      using Suc.prems(3) by simp
  qed
  with now show ?case by (simp add: wait_available.simps [of b t k])
qed

lemma wait_available_complete:
  "\<forall>j<n. Wire_available b (k + j) < 6 \<and> \<not> timeout_elapsed b t (k + j)
     \<Longrightarrow> 6 \<le> Wire_available b (k + n) \<Longrightarrow> wait_available b t k = Some False"
proof (induction n arbitrary: k)
  case 0
  then show ?case by (simp add: wait_available.simps [of b t k])
next
  case (Suc n)
  have now: "Wire_available b k < 6" "\<not> timeout_elapsed b t k"
    using Suc.prems(1) [rule_format, of 0] by simp_all
  have "wait_available b t (Suc k) = Some False"
  proof (rule Suc.IH)
    show "\<forall>j<n. Wire_available b (Suc k + j) < 6 \<and> \<not> timeout_elapsed b t (Suc k + j)"
    proof (intro allI impI)
      fix j assume "j < n"
      with Suc.prems(1) [rule_format, of "Suc j"]
      show "Wire_available b (Suc k + j) < 6 \<and> \<not> timeout_elapsed b t (Suc k + j)"
        by simp
    qed
    show "6 \<le> Wire_available b (Suc k + n)"
      using Suc.prems(2) by simp
  qed
  with now show ?case by (simp add: wait_available.simps [of b t k])
qed


lemma wait_available_Some:
  assumes "wait_available b t k = Some r"
  shows "\<exists>n. (\<forall>j<n. Wire_available b (k + j) < 6 \<and> \<not> timeout_elapsed b t (k + j))
        \<and> (if r then Wire_available b (k + n) < 6 \<and> timeout_elapsed b t (k + n)
            else 6 \<le> Wire_available b (k + n))"
proof (rule wait_available.raw_induct
    [where P = "\<lambda>b t k r. \<exists>n. (\<forall>j<n. Wire_available b (k + j) < 6 \<and> \<not> timeout_elapsed b t (k + j))
        \<and> (if r then Wire_available b (k + n) < 6 \<and> timeout_elapsed b t (k + n)
            else 6 \<le> Wire_available b (k + n))", OF _ assms])
  fix wait :: "'a word burst \<Rightarrow> 'a word \<Rightarrow> nat \<Rightarrow> bool option" and b t k r
  assume IH: "\<And>b t k r. wait b t k = Some r \<Longrightarrow>
     \<exists>n. (\<forall>j<n. Wire_available b (k + j) < 6 \<and> \<not> timeout_elapsed b t (k + j))
        \<and> (if r then Wire_available b (k + n) < 6 \<and> timeout_elapsed b t (k + n)
            else 6 \<le> Wire_available b (k + n))"
    and eq: "(if Wire_available b k < 6
              then if timeout_elapsed b t k then Some True else wait b t (Suc k)
              else Some False) = Some r"
  show "\<exists>n. (\<forall>j<n. Wire_available b (k + j) < 6 \<and> \<not> timeout_elapsed b t (k + j))
        \<and> (if r then Wire_available b (k + n) < 6 \<and> timeout_elapsed b t (k + n)
            else 6 \<le> Wire_available b (k + n))"
  proof (cases "Wire_available b k < 6")
    case False
    with eq have "\<not> r" by simp
    with False show ?thesis by (intro exI [of _ 0]) simp
  next
    case True
    show ?thesis
    proof (cases "timeout_elapsed b t k")
      case e: True
      with True eq have r by simp
      with True e show ?thesis by (intro exI [of _ 0]) simp
    next
      case e: False
      with True eq have "wait b t (Suc k) = Some r" by simp
      from IH [OF this] obtain n where
        nn: "(\<forall>j<n. Wire_available b (Suc k + j) < 6 \<and> \<not> timeout_elapsed b t (Suc k + j))
           \<and> (if r then Wire_available b (Suc k + n) < 6 \<and> timeout_elapsed b t (Suc k + n)
               else 6 \<le> Wire_available b (Suc k + n))" ..
      from nn have n1: "\<forall>j<n. Wire_available b (Suc k + j) < 6 \<and> \<not> timeout_elapsed b t (Suc k + j)"
        by (rule conjunct1)
      from nn have n2: "if r then Wire_available b (k + Suc n) < 6 \<and> timeout_elapsed b t (k + Suc n)
               else 6 \<le> Wire_available b (k + Suc n)"
        by (cases r) simp_all
      have "\<forall>j<Suc n. Wire_available b (k + j) < 6 \<and> \<not> timeout_elapsed b t (k + j)"
      proof (intro allI impI)
        fix j assume "j < Suc n"
        show "Wire_available b (k + j) < 6 \<and> \<not> timeout_elapsed b t (k + j)"
        proof (cases j)
          case 0
          with True e show ?thesis by simp
        next
          case (Suc i)
          with \<open>j < Suc n\<close> n1 [rule_format, of i] show ?thesis by simp
        qed
      qed
      then have "(\<forall>j<Suc n. Wire_available b (k + j) < 6 \<and> \<not> timeout_elapsed b t (k + j))
           \<and> (if r then Wire_available b (k + Suc n) < 6 \<and> timeout_elapsed b t (k + Suc n)
               else 6 \<le> Wire_available b (k + Suc n))"
        using n2 by (rule conjI)
      then show ?thesis by (rule exI)
    qed
  qed
qed

lemma wait_available_never:
  "wait_available b t k = None" if "\<forall>j. Wire_available b j < 6 \<and> \<not> timeout_elapsed b t j"
proof (cases "wait_available b t k")
  case (Some r)
  from wait_available_Some [OF this] obtain n where
    "if r then Wire_available b (k + n) < 6 \<and> timeout_elapsed b t (k + n)
     else 6 \<le> Wire_available b (k + n)"
    by (auto split: if_splits)
  with that [rule_format, of "k + n"] show ?thesis
    by (simp split: if_splits)
qed simp

section \<open>Burst reads: the two outcomes\<close>

lemma readAcc_unfold:
  assumes "readAcc_burst c w s = b"
  shows "readAcc c w s =
     (case wait_available b (io_timeout s) 0 of
        None \<Rightarrow> None
      | Some True \<Rightarrow> Some (s\<lparr>last_status := Wire_endTransmission b, did_timeout := True\<rparr>)
      | Some False \<Rightarrow>
          Some (s\<lparr>last_status := Wire_endTransmission b, did_timeout := False,
                 a := (if this_device s = device_D
                       then \<lparr>x = int16_of_bytes (Wire_read b 1) (Wire_read b 0),
                             y = int16_of_bytes (Wire_read b 3) (Wire_read b 2),
                             z = int16_of_bytes (Wire_read b 5) (Wire_read b 4)\<rparr>
                       else \<lparr>x = signed_drop_bit 4 (int16_of_bytes (Wire_read b 1) (Wire_read b 0)),
                             y = signed_drop_bit 4 (int16_of_bytes (Wire_read b 3) (Wire_read b 2)),
                             z = signed_drop_bit 4 (int16_of_bytes (Wire_read b 5) (Wire_read b 4))\<rparr>)\<rparr>))"
  unfolding readAcc_def Let_def assms
  by (simp split: option.split bool.split)

lemma readMag_unfold:
  assumes "readMag_burst w s = b"
  shows "readMag w s =
     (case wait_available b (io_timeout s) 0 of
        None \<Rightarrow> None
      | Some True \<Rightarrow> Some (s\<lparr>last_status := Wire_endTransmission b, did_timeout := True\<rparr>)
      | Some False \<Rightarrow>
          Some (s\<lparr>last_status := Wire_endTransmission b, did_timeout := False,
                 m := (case readMag_bytes (this_device s) (Wire_read b) of
                         (xlm, xhm, ylm, yhm, zlm, zhm) \<Rightarrow>
                           \<lparr>x = int16_of_bytes xhm xlm,
                            y = int16_of_bytes yhm ylm,
                            z = int16_of_bytes zhm zlm\<rparr>)\<rparr>))"
  unfolding readMag_def Let_def assms
  by (simp split: option.split bool.split prod.split)

lemma readAcc_timeout:
  assumes "readAcc_burst c w s = b"
    and "wait_available b (io_timeout s) 0 = Some True"
  shows "readAcc c w s = Some (s\<lparr>last_status := Wire_endTransmission b, did_timeout := True\<rparr>)"
  by (simp add: readAcc_unfold [OF assms(1)] assms(2))

lemma readMag_timeout:
  assumes "readMag_burst w s = b"
    and "wait_available b (io_timeout s) 0 = Some True"
  shows "readMag w s = Some (s\<lparr>last_status := Wire_endTransmission b, did_timeout := True\<rparr>)"
  by (simp add: readMag_unfold [OF assms(1)] assms(2))

lemma readAcc_complete:
  assumes "readAcc_burst c w s = b"
    and "wait_available b (io_timeout s) 0 = Some False"
  shows "readAcc c w (s\<lparr>a := a0\<rparr>) =
     Some (s\<lparr>last_status := Wire_endTransmission b, did_timeout := False,
             a := (if this_device s = device_D
                   then \<lparr>x = int16_of_bytes (Wire_read b 1) (Wire_read b 0),
                         y = int16_of_bytes (Wire_read b 3) (Wire_read b 2),
                         z = int16_of_bytes (Wire_read b 5) (Wire_read b 4)\<rparr>
                   else \<lparr>x = signed_drop_bit 4 (int16_of_bytes (Wire_read b 1) (Wire_read b 0)),
                         y = signed_drop_bit 4 (int16_of_bytes (Wire_read b 3) (Wire_read b 2)),
                         z = signed_drop_bit 4 (int16_of_bytes (Wire_read b 5) (Wire_read b 4))\<rparr>)\<rparr>)"
proof -
  have "readAcc_burst c w (s\<lparr>a := a0\<rparr>) = readAcc_burst c w s"
    by (simp add: readAcc_burst_def)
  with assms(1) have "readAcc_burst c w (s\<lparr>a := a0\<rparr>) = b"
    by simp
  from readAcc_unfold [OF this] assms(2) show ?thesis by simp
qed

lemma readMag_complete:
  assumes "readMag_burst w s = b"
    and "wait_available b (io_timeout s) 0 = Some False"
  shows "readMag w (s\<lparr>m := m0\<rparr>) =
     Some (s\<lparr>last_status := Wire_endTransmission b, did_timeout := False,
             m := (case readMag_bytes (this_device s) (Wire_read b) of
                     (xlm, xhm, ylm, yhm, zlm, zhm) \<Rightarrow>
                       \<lparr>x = int16_of_bytes xhm xlm,
                        y = int16_of_bytes yhm ylm,
                        z = int16_of_bytes zhm zlm\<rparr>)\<rparr>)"
proof -
  have "readMag_burst w (s\<lparr>m := m0\<rparr>) = readMag_burst w s"
    by (simp add: readMag_burst_def)
  with assms(1) have "readMag_burst w (s\<lparr>m := m0\<rparr>) = b"
    by simp
  from readMag_unfold [OF this] assms(2) show ?thesis by simp
qed

lemma readAcc_cases:
  assumes "readAcc c w s = Some s'"
  shows "(a s' = a s \<and> did_timeout s') \<or> (\<forall>a0. \<exists>t. readAcc c w (s\<lparr>a := a0\<rparr>) = Some t \<and> a t = a s' \<and> \<not> did_timeout t) \<and> \<not> did_timeout s'"
proof -
  define b where "b = readAcc_burst c w s"
  then have b: "readAcc_burst c w s = b" by simp
  from assms obtain r where r: "wait_available b (io_timeout s) 0 = Some r"
    by (cases "wait_available b (io_timeout s) 0") (simp_all add: readAcc_unfold [OF b])
  show ?thesis
  proof (cases r)
    case True
    with r assms show ?thesis by (auto simp: readAcc_timeout [OF b])
  next
    case False
    with r have f: "wait_available b (io_timeout s) 0 = Some False" by simp
    have "readAcc c w (s\<lparr>a := a0\<rparr>) = Some s'" for a0
      using readAcc_complete [OF b f, of a0] readAcc_complete [OF b f, of "a s"] assms by simp
    moreover from assms have "\<not> did_timeout s'"
      by (auto simp: readAcc_unfold [OF b] f)
    ultimately show ?thesis by simp
  qed
qed

lemma readMag_cases:
  assumes "readMag w s = Some s'"
  shows "(m s' = m s \<and> did_timeout s') \<or> (\<forall>m0. \<exists>t. readMag w (s\<lparr>m := m0\<rparr>) = Some t \<and> m t = m s' \<and> \<not> did_timeout t) \<and> \<not> did_timeout s'"
proof -
  define b where "b = readMag_burst w s"
  then have b: "readMag_burst w s = b" by simp
  from assms obtain r where r: "wait_available b (io_timeout s) 0 = Some r"
    by (cases "wait_available b (io_timeout s) 0") (simp_all add: readMag_unfold [OF b])
  show ?thesis
  proof (cases r)
    case True
    with r assms show ?thesis by (auto simp: readMag_timeout [OF b])
  next
    case False
    with r have f: "wait_available b (io_timeout s) 0 = Some False" by simp
    have "readMag w (s\<lparr>m := m0\<rparr>) = Some s'" for m0
      using readMag_complete [OF b f, of m0] readMag_complete [OF b f, of "m s"] assms by simp
    moreover from assms have "\<not> did_timeout s'"
      by (auto simp: readMag_unfold [OF b] f)
    ultimately show ?thesis by simp
  qed
qed

text \<open>
  With \<open>io_timeout = 0\<close> the timeout never elapses: when 6 bytes never become available,
  neither function returns.
\<close>

lemma no_timeout_never_elapsed: "\<not> timeout_elapsed b 0 k"
  by (simp add: timeout_elapsed_def)

lemma readAcc_no_timeout_blocks:
  assumes "io_timeout s = 0" and "\<forall>j. Wire_available (readAcc_burst c w s) j < 6"
  shows "readAcc c w s = None"
proof -
  from assms have "wait_available (readAcc_burst c w s) (io_timeout s) 0 = None"
    by (intro wait_available_never) (simp add: no_timeout_never_elapsed)
  then show ?thesis
    by (simp add: readAcc_unfold [OF refl])
qed

lemma readMag_no_timeout_blocks:
  assumes "io_timeout s = 0" and "\<forall>j. Wire_available (readMag_burst w s) j < 6"
  shows "readMag w s = None"
proof -
  from assms have "wait_available (readMag_burst w s) (io_timeout s) 0 = None"
    by (intro wait_available_never) (simp add: no_timeout_never_elapsed)
  then show ?thesis
    by (simp add: readMag_unfold [OF refl])
qed

lemma stalled_polls:
  "(\<forall>j\<le>1. Wire_available stalled_burst j < 6)
   \<and> (\<forall>j<1. \<not> timeout_elapsed stalled_burst 15 j)
   \<and> timeout_elapsed stalled_burst 15 1"
  by (simp add: stalled_burst_def timeout_elapsed_def)

lemma late_polls:
  "(\<forall>j<1. Wire_available late_burst j < 6 \<and> \<not> timeout_elapsed late_burst 15 j)
   \<and> 6 \<le> Wire_available late_burst 1"
  by (simp add: late_burst_def timeout_elapsed_def)


text \<open>
  C1. For \<open>readAcc\<close> and \<open>readMag\<close>: when fewer than 6 bytes are available at every poll
  up to the one at which the timeout has elapsed, the call returns with the sample vector
  (\<open>a\<close> or \<open>m\<close>) equal to its value before the call and the timeout flag set; when 6
  bytes are available at a poll before any timeout, the call returns with the flag
  cleared and the vector fully overwritten: its new value is the same whatever the vector
  held before. Every call that returns ends in one of these two ways, so the vector is
  never partially overwritten.
\<close>

theorem sample_read_complete_or_unchanged:
  assumes "ba = readAcc_burst c w s" and "bm = readMag_burst w s"
  shows
    "(\<forall>n. (\<forall>j\<le>n. Wire_available ba j < 6) \<and> (\<forall>j<n. \<not> timeout_elapsed ba (io_timeout s) j)
            \<and> timeout_elapsed ba (io_timeout s) n
          \<longrightarrow> (\<exists>s'. readAcc c w s = Some s' \<and> a s' = a s \<and> did_timeout s'))
     \<and> (\<forall>n. (\<forall>j<n. Wire_available ba j < 6 \<and> \<not> timeout_elapsed ba (io_timeout s) j)
            \<and> 6 \<le> Wire_available ba n
          \<longrightarrow> (\<exists>v. \<forall>a0. \<exists>s'. readAcc c w (s\<lparr>a := a0\<rparr>) = Some s' \<and> a s' = v \<and> \<not> did_timeout s'))
     \<and> (\<forall>s'. readAcc c w s = Some s'
          \<longrightarrow> (a s' = a s \<and> did_timeout s')
              \<or> (\<forall>a0. \<exists>t. readAcc c w (s\<lparr>a := a0\<rparr>) = Some t \<and> a t = a s' \<and> \<not> did_timeout t)
                \<and> \<not> did_timeout s')
     \<and> (\<forall>n. (\<forall>j\<le>n. Wire_available bm j < 6) \<and> (\<forall>j<n. \<not> timeout_elapsed bm (io_timeout s) j)
            \<and> timeout_elapsed bm (io_timeout s) n
          \<longrightarrow> (\<exists>s'. readMag w s = Some s' \<and> m s' = m s \<and> did_timeout s'))
     \<and> (\<forall>n. (\<forall>j<n. Wire_available bm j < 6 \<and> \<not> timeout_elapsed bm (io_timeout s) j)
            \<and> 6 \<le> Wire_available bm n
          \<longrightarrow> (\<exists>v. \<forall>m0. \<exists>s'. readMag w (s\<lparr>m := m0\<rparr>) = Some s' \<and> m s' = v \<and> \<not> did_timeout s'))
     \<and> (\<forall>s'. readMag w s = Some s'
          \<longrightarrow> (m s' = m s \<and> did_timeout s')
              \<or> (\<forall>m0. \<exists>t. readMag w (s\<lparr>m := m0\<rparr>) = Some t \<and> m t = m s' \<and> \<not> did_timeout t)
                \<and> \<not> did_timeout s')"
proof (intro conjI allI impI)
  fix n
  assume h: "(\<forall>j\<le>n. Wire_available ba j < 6) \<and> (\<forall>j<n. \<not> timeout_elapsed ba (io_timeout s) j)
            \<and> timeout_elapsed ba (io_timeout s) n"
  then have "wait_available ba (io_timeout s) 0 = Some True"
    by (intro wait_available_timeout [of n]) simp_all
  then show "\<exists>s'. readAcc c w s = Some s' \<and> a s' = a s \<and> did_timeout s'"
    by (simp add: readAcc_timeout [OF assms(1) [symmetric]])
next
  fix n
  assume h: "(\<forall>j<n. Wire_available ba j < 6 \<and> \<not> timeout_elapsed ba (io_timeout s) j)
            \<and> 6 \<le> Wire_available ba n"
  then have "wait_available ba (io_timeout s) 0 = Some False"
    by (intro wait_available_complete [of n]) simp_all
  then show "\<exists>v. \<forall>a0. \<exists>s'. readAcc c w (s\<lparr>a := a0\<rparr>) = Some s' \<and> a s' = v \<and> \<not> did_timeout s'"
    by (simp add: readAcc_complete [OF assms(1) [symmetric]])
next
  fix s' assume "readAcc c w s = Some s'"
  then show "(a s' = a s \<and> did_timeout s')
              \<or> (\<forall>a0. \<exists>t. readAcc c w (s\<lparr>a := a0\<rparr>) = Some t \<and> a t = a s' \<and> \<not> did_timeout t)
                \<and> \<not> did_timeout s'"
    by (rule readAcc_cases)
next
  fix n
  assume h: "(\<forall>j\<le>n. Wire_available bm j < 6) \<and> (\<forall>j<n. \<not> timeout_elapsed bm (io_timeout s) j)
            \<and> timeout_elapsed bm (io_timeout s) n"
  then have "wait_available bm (io_timeout s) 0 = Some True"
    by (intro wait_available_timeout [of n]) simp_all
  then show "\<exists>s'. readMag w s = Some s' \<and> m s' = m s \<and> did_timeout s'"
    by (simp add: readMag_timeout [OF assms(2) [symmetric]])
next
  fix n
  assume h: "(\<forall>j<n. Wire_available bm j < 6 \<and> \<not> timeout_elapsed bm (io_timeout s) j)
            \<and> 6 \<le> Wire_available bm n"
  then have "wait_available bm (io_timeout s) 0 = Some False"
    by (intro wait_available_complete [of n]) simp_all
  then show "\<exists>v. \<forall>m0. \<exists>s'. readMag w (s\<lparr>m := m0\<rparr>) = Some s' \<and> m s' = v \<and> \<not> did_timeout s'"
    by (simp add: readMag_complete [OF assms(2) [symmetric]])
next
  fix s' assume "readMag w s = Some s'"
  then show "(m s' = m s \<and> did_timeout s')
              \<or> (\<forall>m0. \<exists>t. readMag w (s\<lparr>m := m0\<rparr>) = Some t \<and> m t = m s' \<and> \<not> did_timeout t)
                \<and> \<not> did_timeout s'"
    by (rule readMag_cases)
qed


theorem sample_read_complete_or_unchanged_witness:
  "(\<exists>s'. readAcc datasheet_regmap (\<lambda>address reg. stalled_burst) (sample_object device_DLHC) = Some s'
          \<and> a s' = a (sample_object device_DLHC) \<and> did_timeout s')
   \<and> (\<exists>v. \<forall>a0. \<exists>s'. readAcc datasheet_regmap (\<lambda>address reg. late_burst)
                         ((sample_object device_DLHC)\<lparr>a := a0\<rparr>) = Some s'
          \<and> a s' = v \<and> \<not> did_timeout s')
   \<and> (\<exists>s'. readMag (\<lambda>address reg. stalled_burst) (sample_object device_DLHC) = Some s'
          \<and> m s' = m (sample_object device_DLHC) \<and> did_timeout s')
   \<and> (\<exists>v. \<forall>m0. \<exists>s'. readMag (\<lambda>address reg. late_burst)
                         ((sample_object device_DLHC)\<lparr>m := m0\<rparr>) = Some s'
          \<and> m s' = v \<and> \<not> did_timeout s')"
proof -
  have t: "io_timeout (sample_object device_DLHC) = 15"
    by (simp add: sample_object_def)
  note stalled = sample_read_complete_or_unchanged
    [of stalled_burst datasheet_regmap "\<lambda>address reg. stalled_burst" "sample_object device_DLHC"
        stalled_burst, unfolded t]
  note late = sample_read_complete_or_unchanged
    [of late_burst datasheet_regmap "\<lambda>address reg. late_burst" "sample_object device_DLHC"
        late_burst, unfolded t]
  have s: "stalled_burst = readAcc_burst datasheet_regmap (\<lambda>address reg. stalled_burst) (sample_object device_DLHC)"
     "stalled_burst = readMag_burst (\<lambda>address reg. stalled_burst) (sample_object device_DLHC)"
     "late_burst = readAcc_burst datasheet_regmap (\<lambda>address reg. late_burst) (sample_object device_DLHC)"
     "late_burst = readMag_burst (\<lambda>address reg. late_burst) (sample_object device_DLHC)"
    by (simp_all add: readAcc_burst_def readMag_burst_def)
  note st = stalled [OF s(1) s(2)] and lt = late [OF s(3) s(4)]
  have 1: "\<exists>s'. readAcc datasheet_regmap (\<lambda>address reg. stalled_burst) (sample_object device_DLHC) = Some s'
          \<and> a s' = a (sample_object device_DLHC) \<and> did_timeout s'"
    using st [THEN conjunct1, rule_format, of 1] stalled_polls by simp
  have 2: "\<exists>v. \<forall>a0. \<exists>s'. readAcc datasheet_regmap (\<lambda>address reg. late_burst)
                         ((sample_object device_DLHC)\<lparr>a := a0\<rparr>) = Some s'
          \<and> a s' = v \<and> \<not> did_timeout s'"
    using lt [THEN conjunct2, THEN conjunct1, rule_format, of 1] late_polls by simp
  have 3: "\<exists>s'. readMag (\<lambda>address reg. stalled_burst) (sample_object device_DLHC) = Some s'
          \<and> m s' = m (sample_object device_DLHC) \<and> did_timeout s'"
    using st [THEN conjunct2, THEN conjunct2, THEN conjunct2, THEN conjunct1, rule_format, of 1]
      stalled_polls by simp
  have 4: "\<exists>v. \<forall>m0. \<exists>s'. readMag (\<lambda>address reg. late_burst)
                         ((sample_object device_DLHC)\<lparr>m := m0\<rparr>) = Some s'
          \<and> m s' = v \<and> \<not> did_timeout s'"
    using lt [THEN conjunct2, THEN conjunct2, THEN conjunct2, THEN conjunct2, THEN conjunct1,
        rule_format, of 1] late_polls by simp
  from 1 2 3 4 show ?thesis by (intro conjI)
qed

section \<open>Decoding of the samples\<close>

lemma uint_int16_of_bytes: "uint (int16_of_bytes hi lo) = 256 * uint hi + uint lo"
proof -
  have disj: "push_bit 8 (uint hi) OR uint lo = push_bit 8 (uint hi) + uint lo"
  proof -
    have "push_bit 8 (uint hi) AND uint lo = 0"
      by (rule bit_eqI) (auto simp: bit_and_iff bit_push_bit_iff bit_uint_iff)
    then have "push_bit 8 (uint hi) + uint lo = push_bit 8 (uint hi) OR uint lo"
      by (rule disjunctive_add_eq_or)
    then show ?thesis
      by (rule sym)
  qed
  have lo: "0 \<le> uint lo" "uint lo < 256" and hi: "0 \<le> uint hi" "uint hi < 256"
    using uint_lt2p [of lo] uint_lt2p [of hi] by simp_all
  have w: "uint (word_of_int k :: int16_t) = take_bit 16 k" for k
    by (simp add: uint_word_of_int_eq)
  have p: "push_bit 8 (uint hi) = 256 * uint hi"
    by (simp add: push_bit_eq_mult)
  have "uint (int16_of_bytes hi lo) = take_bit 16 (256 * uint hi + uint lo)"
    unfolding int16_of_bytes_def disj w by (simp only: p)
  also have "\<dots> = 256 * uint hi + uint lo"
    using lo hi by (intro take_bit_int_eq_self) simp_all
  finally show ?thesis .
qed

lemma signed_16_of_bytes:
  fixes h l :: int
  assumes "0 \<le> h" "h < 256" "0 \<le> l" "l < 256"
  shows "signed_take_bit 15 (256 * h + l) =
     (if h < 128 then 256 * h + l else 256 * h + l - 65536)"
proof (cases "h < 128")
  case True
  with assms have "signed_take_bit 15 (256 * h + l) = 256 * h + l"
    by (intro signed_take_bit_int_eq_self) simp_all
  with True show ?thesis by simp
next
  case False
  have "signed_take_bit 15 (256 * h + l) = (256 * h + l + 32768) mod 65536 - 32768"
    by (simp add: signed_take_bit_eq_take_bit_shift take_bit_eq_mod)
  also have "(256 * h + l + 32768) mod 65536 = 256 * h + l - 32768"
  proof -
    have "256 * h + l + 32768 = (256 * h + l - 32768) + 65536"
      by simp
    then have "(256 * h + l + 32768) mod 65536 = (256 * h + l - 32768) mod 65536"
      by (simp only: mod_add_self2)
    also have "\<dots> = 256 * h + l - 32768"
      using assms False by (intro mod_pos_pos_trivial) simp_all
    finally show ?thesis .
  qed
  finally show ?thesis using False by simp
qed

lemma sint_int16_of_bytes:
  "sint (int16_of_bytes hi lo) =
     (if uint hi < 128 then 256 * uint hi + uint lo else 256 * uint hi + uint lo - 65536)"
proof -
  have lo: "0 \<le> uint lo" "uint lo < 256" and hi: "0 \<le> uint hi" "uint hi < 256"
    using uint_lt2p [of lo] uint_lt2p [of hi] by simp_all
  have "sint (int16_of_bytes hi lo) = signed_take_bit 15 (uint (int16_of_bytes hi lo))"
    by (simp add: sint_uint)
  also have "\<dots> = signed_take_bit 15 (256 * uint hi + uint lo)"
    by (simp add: uint_int16_of_bytes)
  finally show ?thesis
    using signed_16_of_bytes [OF hi lo] by simp
qed

lemma sint_shift4: "sint (signed_drop_bit 4 (v :: int16_t)) = sint v div 16"
  by (simp add: sint_signed_drop_bit_eq drop_bit_eq_div)

lemma late_burst_complete: "wait_available late_burst 15 0 = Some False"
  by (simp add: wait_available.simps late_burst_def timeout_elapsed_def)

lemma late_burst_bytes:
  "Wire_read late_burst 0 = 0x34" "Wire_read late_burst (Suc 0) = 0x12"
  "Wire_read late_burst 2 = 0xF0" "Wire_read late_burst 3 = 0xFF"
  "Wire_read late_burst 4 = 0x07" "Wire_read late_burst 5 = 0x80"
  by (simp_all add: late_burst_def)


text \<open>
  C2. When a burst of \<open>readAcc\<close> completes with 6 bytes, each axis is combined from its
  pair of bytes, low byte first on the bus, as the signed 16-bit value of
  \<open>high * 256 + low\<close>. On a \<open>device_D\<close> that value is stored as it is; on every other
  device it is shifted right by 4 arithmetically: the stored value is the signed value
  divided by 16 and rounded down, which keeps the sign and drops the low 4 bits.
\<close>

theorem readAcc_axis_decoding:
  assumes "b = readAcc_burst c w s" and "wait_available b (io_timeout s) 0 = Some False"
  shows
    "(\<forall>hi lo. sint (int16_of_bytes hi lo) =
        (if uint hi < 128 then 256 * uint hi + uint lo else 256 * uint hi + uint lo - 65536))
     \<and> (\<exists>s'. readAcc c w s = Some s'
          \<and> (this_device s = device_D \<longrightarrow>
                x (a s') = int16_of_bytes (Wire_read b 1) (Wire_read b 0)
              \<and> y (a s') = int16_of_bytes (Wire_read b 3) (Wire_read b 2)
              \<and> z (a s') = int16_of_bytes (Wire_read b 5) (Wire_read b 4))
          \<and> (this_device s \<noteq> device_D \<longrightarrow>
                x (a s') = signed_drop_bit 4 (int16_of_bytes (Wire_read b 1) (Wire_read b 0))
              \<and> y (a s') = signed_drop_bit 4 (int16_of_bytes (Wire_read b 3) (Wire_read b 2))
              \<and> z (a s') = signed_drop_bit 4 (int16_of_bytes (Wire_read b 5) (Wire_read b 4))
              \<and> sint (x (a s')) = sint (int16_of_bytes (Wire_read b 1) (Wire_read b 0)) div 16
              \<and> sint (y (a s')) = sint (int16_of_bytes (Wire_read b 3) (Wire_read b 2)) div 16
              \<and> sint (z (a s')) = sint (int16_of_bytes (Wire_read b 5) (Wire_read b 4)) div 16))"
proof (rule conjI)
  show "\<forall>hi lo. sint (int16_of_bytes hi lo) =
        (if uint hi < 128 then 256 * uint hi + uint lo else 256 * uint hi + uint lo - 65536)"
    by (intro allI) (rule sint_int16_of_bytes)
next
  note r = readAcc_unfold [OF assms(1) [symmetric], unfolded assms(2)]
  show "\<exists>s'. readAcc c w s = Some s'
          \<and> (this_device s = device_D \<longrightarrow>
                x (a s') = int16_of_bytes (Wire_read b 1) (Wire_read b 0)
              \<and> y (a s') = int16_of_bytes (Wire_read b 3) (Wire_read b 2)
              \<and> z (a s') = int16_of_bytes (Wire_read b 5) (Wire_read b 4))
          \<and> (this_device s \<noteq> device_D \<longrightarrow>
                x (a s') = signed_drop_bit 4 (int16_of_bytes (Wire_read b 1) (Wire_read b 0))
              \<and> y (a s') = signed_drop_bit 4 (int16_of_bytes (Wire_read b 3) (Wire_read b 2))
              \<and> z (a s') = signed_drop_bit 4 (int16_of_bytes (Wire_read b 5) (Wire_read b 4))
              \<and> sint (x (a s')) = sint (int16_of_bytes (Wire_read b 1) (Wire_read b 0)) div 16
              \<and> sint (y (a s')) = sint (int16_of_bytes (Wire_read b 3) (Wire_read b 2)) div 16
              \<and> sint (z (a s')) = sint (int16_of_bytes (Wire_read b 5) (Wire_read b 4)) div 16)"
    by (cases "this_device s = device_D") (simp_all add: r sint_shift4)
qed

theorem readAcc_axis_decoding_witness:
  "(\<exists>s'. readAcc datasheet_regmap (\<lambda>address reg. late_burst) (sample_object device_D) = Some s'
        \<and> sint (x (a s')) = 4660 \<and> sint (y (a s')) = - 16 \<and> sint (z (a s')) = - 32761)
   \<and> (\<exists>s'. readAcc datasheet_regmap (\<lambda>address reg. late_burst) (sample_object device_DLHC) = Some s'
        \<and> sint (x (a s')) = 291 \<and> sint (y (a s')) = - 1 \<and> sint (z (a s')) = - 2048)"
proof -
  have b: "late_burst = readAcc_burst datasheet_regmap (\<lambda>address reg. late_burst) (sample_object dv)" for dv
    by (simp add: readAcc_burst_def)
  have t: "wait_available late_burst (io_timeout (sample_object dv)) 0 = Some False" for dv
    by (simp add: sample_object_def late_burst_complete)
  have d: "this_device (sample_object dv) = dv" for dv
    by (simp add: sample_object_def)
  have v: "sint (int16_of_bytes 0x12 0x34) = 4660" "sint (int16_of_bytes 0xFF 0xF0) = - 16"
      "sint (int16_of_bytes 0x80 0x07) = - 32761"
    by (simp_all add: int16_of_bytes_def)
  from readAcc_axis_decoding [OF b t, of device_D, THEN conjunct2]
  have 1: "\<exists>s'. readAcc datasheet_regmap (\<lambda>address reg. late_burst) (sample_object device_D) = Some s'
        \<and> sint (x (a s')) = 4660 \<and> sint (y (a s')) = - 16 \<and> sint (z (a s')) = - 32761"
    by (auto simp: d late_burst_bytes v)
  from readAcc_axis_decoding [OF b t, of device_DLHC, THEN conjunct2]
  have 2: "\<exists>s'. readAcc datasheet_regmap (\<lambda>address reg. late_burst) (sample_object device_DLHC) = Some s'
        \<and> sint (x (a s')) = 291 \<and> sint (y (a s')) = - 1 \<and> sint (z (a s')) = - 2048"
    by (auto simp: d late_burst_bytes v)
  from 1 2 show ?thesis by (rule conjI)
qed


text \<open>
  C3. When a burst of \<open>readMag\<close> completes with 6 bytes, the bytes are taken in the order
  \<open>X_L, X_H, Y_L, Y_H, Z_L, Z_H\<close> on a \<open>device_D\<close>, in the order
  \<open>X_H, X_L, Y_H, Y_L, Z_H, Z_L\<close> on a \<open>device_DLH\<close>, and in the order
  \<open>X_H, X_L, Z_H, Z_L, Y_H, Y_L\<close> on a \<open>device_DLM\<close> or a \<open>device_DLHC\<close>, and each axis is
  the 16-bit value of its high and low byte.
\<close>

theorem readMag_byte_order:
  assumes "b = readMag_burst w s" and "wait_available b (io_timeout s) 0 = Some False"
  shows
    "\<exists>s'. readMag w s = Some s'
       \<and> (this_device s = device_D \<longrightarrow>
             m s' = \<lparr>x = int16_of_bytes (Wire_read b 1) (Wire_read b 0),
                     y = int16_of_bytes (Wire_read b 3) (Wire_read b 2),
                     z = int16_of_bytes (Wire_read b 5) (Wire_read b 4)\<rparr>)
       \<and> (this_device s = device_DLH \<longrightarrow>
             m s' = \<lparr>x = int16_of_bytes (Wire_read b 0) (Wire_read b 1),
                     y = int16_of_bytes (Wire_read b 2) (Wire_read b 3),
                     z = int16_of_bytes (Wire_read b 4) (Wire_read b 5)\<rparr>)
       \<and> (this_device s = device_DLM \<or> this_device s = device_DLHC \<longrightarrow>
             m s' = \<lparr>x = int16_of_bytes (Wire_read b 0) (Wire_read b 1),
                     y = int16_of_bytes (Wire_read b 4) (Wire_read b 5),
                     z = int16_of_bytes (Wire_read b 2) (Wire_read b 3)\<rparr>)"
proof -
  note r = readMag_unfold [OF assms(1) [symmetric], unfolded assms(2)]
  show ?thesis
    by (cases "this_device s") (simp_all add: r readMag_bytes_def)
qed

theorem readMag_byte_order_witness:
  "(\<exists>s'. readMag (\<lambda>address reg. late_burst) (sample_object device_D) = Some s'
        \<and> m s' = \<lparr>x = 0x1234, y = 0xFFF0, z = 0x8007\<rparr>)
   \<and> (\<exists>s'. readMag (\<lambda>address reg. late_burst) (sample_object device_DLH) = Some s'
        \<and> m s' = \<lparr>x = 0x3412, y = 0xF0FF, z = 0x0780\<rparr>)
   \<and> (\<exists>s'. readMag (\<lambda>address reg. late_burst) (sample_object device_DLM) = Some s'
        \<and> m s' = \<lparr>x = 0x3412, y = 0x0780, z = 0xF0FF\<rparr>)
   \<and> (\<exists>s'. readMag (\<lambda>address reg. late_burst) (sample_object device_DLHC) = Some s'
        \<and> m s' = \<lparr>x = 0x3412, y = 0x0780, z = 0xF0FF\<rparr>)"
proof -
  have b: "late_burst = readMag_burst (\<lambda>address reg. late_burst) (sample_object dv)" for dv
    by (simp add: readMag_burst_def)
  have t: "wait_available late_burst (io_timeout (sample_object dv)) 0 = Some False" for dv
    by (simp add: sample_object_def late_burst_complete)
  have d: "this_device (sample_object dv) = dv" for dv
    by (simp add: sample_object_def)
  have v: "int16_of_bytes 0x12 0x34 = 0x1234" "int16_of_bytes 0xFF 0xF0 = 0xFFF0"
      "int16_of_bytes 0x80 0x07 = 0x8007" "int16_of_bytes 0x34 0x12 = 0x3412"
      "int16_of_bytes 0xF0 0xFF = 0xF0FF" "int16_of_bytes 0x07 0x80 = 0x0780"
    by (simp_all add: int16_of_bytes_def)
  from readMag_byte_order [OF b t, of device_D]
  have 1: "\<exists>s'. readMag (\<lambda>address reg. late_burst) (sample_object device_D) = Some s'
        \<and> m s' = \<lparr>x = 0x1234, y = 0xFFF0, z = 0x8007\<rparr>"
    by (auto simp: d late_burst_bytes v)
  from readMag_byte_order [OF b t, of device_DLH]
  have 2: "\<exists>s'. readMag (\<lambda>address reg. late_burst) (sample_object device_DLH) = Some s'
        \<and> m s' = \<lparr>x = 0x3412, y = 0xF0FF, z = 0x0780\<rparr>"
    by (auto simp: d late_burst_bytes v)
  from readMag_byte_order [OF b t, of device_DLM]
  have 3: "\<exists>s'. readMag (\<lambda>address reg. late_burst) (sample_object device_DLM) = Some s'
        \<and> m s' = \<lparr>x = 0x3412, y = 0x0780, z = 0xF0FF\<rparr>"
    by (auto simp: d late_burst_bytes v)
  from readMag_byte_order [OF b t, of device_DLHC]
  have 4: "\<exists>s'. readMag (\<lambda>address reg. late_burst) (sample_object device_DLHC) = Some s'
        \<and> m s' = \<lparr>x = 0x3412, y = 0x0780, z = 0xF0FF\<rparr>"
    by (auto simp: d late_burst_bytes v)
  from 1 2 3 4 show ?thesis by (intro conjI)
qed

section \<open>Resolution of the device in \<open>init\<close>\<close>

lemma testReg_simps:
  "fst (testReg w k s address reg) =
     (case snd (w k address (word_of_int reg)) of Some b \<Rightarrow> uint b | None \<Rightarrow> - 1)"
  "snd (testReg w k s address reg) = s\<lparr>last_status := fst (w k address (word_of_int reg))\<rparr>"
  by (simp_all add: testReg_def TEST_REG_NACK_def split: prod.split option.split)

lemma testReg_eq:
  "testReg w k s address reg =
     (case snd (w k address (word_of_int reg)) of Some b \<Rightarrow> uint b | None \<Rightarrow> - 1,
      s\<lparr>last_status := fst (w k address (word_of_int reg))\<rparr>)"
  by (simp add: testReg_def TEST_REG_NACK_def split: prod.split option.split)

lemma testReg_cong:
  "w' k address (word_of_int reg) = w k address (word_of_int reg)
     \<Longrightarrow> testReg w' k s address reg = testReg w k s address reg"
  by (simp add: testReg_def)

lemma testReg_nack_iff:
  "fst (testReg w k s address reg) \<noteq> TEST_REG_NACK \<longleftrightarrow> snd (w k address (word_of_int reg)) \<noteq> None"
proof (cases "snd (w k address (word_of_int reg))")
  case None
  then show ?thesis by (simp add: testReg_simps TEST_REG_NACK_def)
next
  case (Some b)
  have "uint b \<noteq> - 1" using uint_ge_0 [of b] by arith
  with Some show ?thesis by (simp add: testReg_simps TEST_REG_NACK_def)
qed

lemma init_never_returns_true: "fst (init c w s device sa0) \<noteq> Some True"
  by (simp add: init_def split: prod.split option.split)

lemma init_device_cong:
  assumes "\<forall>k address reg. k < 4 \<longrightarrow> w' k address reg = w k address reg"
  shows "init_device c w' s device sa0 = init_device c w s device sa0"
proof -
  have t: "testReg w' k s1 address reg = testReg w k s1 address reg" if "k < 4" for k s1 address reg
    using assms that by (intro testReg_cong) simp
  show ?thesis
    by (simp add: init_device_def t cong: if_cong)
qed

lemma init_device_count: "fst (snd (init_device c w s device sa0)) \<le> 4"
  by (simp add: init_device_def Let_def split: prod.split)

lemma init_sa0_cong:
  assumes "\<forall>k address reg. k < 4 \<longrightarrow> w' k address reg = w k address reg" and "n \<le> 2"
  shows "init_sa0 c w' n s device sa0 = init_sa0 c w n s device sa0"
proof -
  have t: "testReg w' k s1 address reg = testReg w k s1 address reg" if "k < 4" for k s1 address reg
    using assms(1) that by (intro testReg_cong) simp
  from assms(2) have n: "n < 4" "Suc n < 4" by simp_all
  show ?thesis
    by (simp add: init_sa0_def t [OF n(1)] t [OF n(2)] cong: if_cong)
qed

lemma init_device_auto_count:
  assumes "init_device c w s device_auto sa0 = (Some (d, sa), n, s1)" and "sa = sa0_auto"
  shows "n \<le> 2"
  using assms
  by (auto simp: init_device_def Let_def split: prod.splits if_splits)

lemma init_cong:
  assumes "\<forall>k address reg. k < 4 \<longrightarrow> w' k address reg = w k address reg"
  shows "init c w' s device_auto sa0 = init c w s device_auto sa0"
proof -
  obtain r n s1 where r: "init_device c w s device_auto sa0 = (r, n, s1)"
    by (cases "init_device c w s device_auto sa0")
  then have r': "init_device c w' s device_auto sa0 = (r, n, s1)"
    by (simp add: init_device_cong [OF assms])
  show ?thesis
  proof (cases r)
    case None
    with r r' show ?thesis by (simp add: init_def)
  next
    case (Some p)
    obtain d sa where p: "p = (d, sa)" by (cases p)
    show ?thesis
    proof (cases "sa = sa0_auto")
      case True
      with r Some p have "n \<le> 2" by (intro init_device_auto_count) simp_all
      then have "init_sa0 c w' n s1 d sa = init_sa0 c w n s1 d sa"
        by (rule init_sa0_cong [OF assms])
      with r r' Some p show ?thesis
        by (simp add: init_def)
    next
      case False
      then have "init_sa0 c w' n s1 d sa = init_sa0 c w n s1 d sa"
        by (simp add: init_sa0_def)
      with r r' Some p show ?thesis by (simp add: init_def)
    qed
  qed
qed

lemma init_auto_D_high:
  assumes "snd (w 0 D_SA0_HIGH_ADDRESS (word_of_int (WHO_AM_I c))) = Some 0x49"
  shows "init_device c w s device_auto sa0 =
           (Some (device_D, sa0_high), 1,
            s\<lparr>last_status := fst (w 0 D_SA0_HIGH_ADDRESS (word_of_int (WHO_AM_I c)))\<rparr>)"
    and "init c w s device_auto sa0 =
           (None, init_addresses c
              (s\<lparr>last_status := fst (w 0 D_SA0_HIGH_ADDRESS (word_of_int (WHO_AM_I c)))\<rparr>)
              device_D sa0_high)"
proof -
  show 1: "init_device c w s device_auto sa0 =
           (Some (device_D, sa0_high), 1,
            s\<lparr>last_status := fst (w 0 D_SA0_HIGH_ADDRESS (word_of_int (WHO_AM_I c)))\<rparr>)"
    using assms by (simp add: init_device_def testReg_eq D_WHO_ID_def)
  show "init c w s device_auto sa0 =
           (None, init_addresses c
              (s\<lparr>last_status := fst (w 0 D_SA0_HIGH_ADDRESS (word_of_int (WHO_AM_I c)))\<rparr>)
              device_D sa0_high)"
    by (simp add: init_def 1 init_sa0_def)
qed

lemma init_auto_DLHC:
  assumes "snd (w 0 D_SA0_HIGH_ADDRESS (word_of_int (WHO_AM_I c))) = None"
    and "snd (w 1 D_SA0_LOW_ADDRESS (word_of_int (WHO_AM_I c))) = None"
    and "snd (w 2 NON_D_ACC_SA0_HIGH_ADDRESS (word_of_int (CTRL_REG1_A c))) \<noteq> None"
  shows "init_device c w s device_auto sa0 =
           (Some (device_DLHC, sa0_high), 3,
            s\<lparr>last_status := fst (w 2 NON_D_ACC_SA0_HIGH_ADDRESS (word_of_int (CTRL_REG1_A c)))\<rparr>)"
    and "init c w s device_auto sa0 =
           (None, init_addresses c
              (s\<lparr>last_status := fst (w 2 NON_D_ACC_SA0_HIGH_ADDRESS (word_of_int (CTRL_REG1_A c)))\<rparr>)
              device_DLHC sa0_high)"
proof -
  from assms(3) obtain b where b: "snd (w 2 NON_D_ACC_SA0_HIGH_ADDRESS (word_of_int (CTRL_REG1_A c))) = Some b"
    by auto
  have nb: "uint b \<noteq> - 1" using uint_ge_0 [of b] by arith
  show 1: "init_device c w s device_auto sa0 =
           (Some (device_DLHC, sa0_high), 3,
            s\<lparr>last_status := fst (w 2 NON_D_ACC_SA0_HIGH_ADDRESS (word_of_int (CTRL_REG1_A c)))\<rparr>)"
    using assms(1,2) b nb
    by (simp add: init_device_def testReg_eq D_WHO_ID_def DLM_WHO_ID_def TEST_REG_NACK_def)
  show "init c w s device_auto sa0 =
           (None, init_addresses c
              (s\<lparr>last_status := fst (w 2 NON_D_ACC_SA0_HIGH_ADDRESS (word_of_int (CTRL_REG1_A c)))\<rparr>)
              device_DLHC sa0_high)"
    by (simp add: init_def 1 init_sa0_def)
qed

lemma init_addresses_D:
  "this_device (init_addresses c s device_D sa0) = device_D"
  "acc_address (init_addresses c s device_D sa0_high) = D_SA0_HIGH_ADDRESS"
  "mag_address (init_addresses c s device_D sa0_high) = D_SA0_HIGH_ADDRESS"
  by (simp_all add: init_addresses_def)

lemma init_addresses_DLHC:
  "this_device (init_addresses c s device_DLHC sa0) = device_DLHC"
  "acc_address (init_addresses c s device_DLHC sa0) = NON_D_ACC_SA0_HIGH_ADDRESS"
  "mag_address (init_addresses c s device_DLHC sa0) = NON_D_MAG_ADDRESS"
  by (simp_all add: init_addresses_def)


text \<open>
  C5. With \<open>device_auto\<close>, \<open>init\<close> is a function of the answers to its first four
  probes: two buses that agree on them give the same result. In particular, when the
  first probe (register \<open>WHO_AM_I\<close> at \<open>D_SA0_HIGH_ADDRESS\<close>) reads \<open>0x49\<close>, the locals
  become \<open>(device_D, sa0_high)\<close> and the object is a \<open>device_D\<close> with both addresses
  \<open>D_SA0_HIGH_ADDRESS\<close>; and when the first two probes get no byte and the third
  (register \<open>CTRL_REG1_A\<close> at \<open>NON_D_ACC_SA0_HIGH_ADDRESS\<close>) gets one, the locals become
  \<open>(device_DLHC, sa0_high)\<close> and the object is a \<open>device_DLHC\<close> with the accelerometer
  at \<open>NON_D_ACC_SA0_HIGH_ADDRESS\<close>.
\<close>

theorem init_auto_resolution:
  "(\<forall>w'. (\<forall>k address reg. k < 4 \<longrightarrow> w' k address reg = w k address reg)
         \<longrightarrow> init c w' s device_auto sa0 = init c w s device_auto sa0)
   \<and> (snd (w 0 D_SA0_HIGH_ADDRESS (word_of_int (WHO_AM_I c))) = Some 0x49
        \<longrightarrow> fst (init_device c w s device_auto sa0) = Some (device_D, sa0_high)
          \<and> this_device (snd (init c w s device_auto sa0)) = device_D
          \<and> acc_address (snd (init c w s device_auto sa0)) = D_SA0_HIGH_ADDRESS
          \<and> mag_address (snd (init c w s device_auto sa0)) = D_SA0_HIGH_ADDRESS)
   \<and> (snd (w 0 D_SA0_HIGH_ADDRESS (word_of_int (WHO_AM_I c))) = None
        \<and> snd (w 1 D_SA0_LOW_ADDRESS (word_of_int (WHO_AM_I c))) = None
        \<and> snd (w 2 NON_D_ACC_SA0_HIGH_ADDRESS (word_of_int (CTRL_REG1_A c))) \<noteq> None
        \<longrightarrow> fst (init_device c w s device_auto sa0) = Some (device_DLHC, sa0_high)
          \<and> this_device (snd (init c w s device_auto sa0)) = device_DLHC
          \<and> acc_address (snd (init c w s device_auto sa0)) = NON_D_ACC_SA0_HIGH_ADDRESS
          \<and> mag_address (snd (init c w s device_auto sa0)) = NON_D_MAG_ADDRESS)"
proof (intro conjI allI impI)
  fix w' :: probe_bus
  assume "\<forall>k address reg. k < 4 \<longrightarrow> w' k address reg = w k address reg"
  then show "init c w' s device_auto sa0 = init c w s device_auto sa0"
    by (rule init_cong)
qed (simp_all add: init_auto_D_high init_auto_DLHC init_addresses_D init_addresses_DLHC)

theorem init_auto_resolution_witness:
  "fst (init_device datasheet_regmap D_high_bus fresh_object device_auto sa0_auto) = Some (device_D, sa0_high)
   \<and> this_device (snd (init datasheet_regmap D_high_bus fresh_object device_auto sa0_auto)) = device_D
   \<and> acc_address (snd (init datasheet_regmap D_high_bus fresh_object device_auto sa0_auto)) = 0x1D
   \<and> mag_address (snd (init datasheet_regmap D_high_bus fresh_object device_auto sa0_auto)) = 0x1D
   \<and> fst (init_device datasheet_regmap DLHC_acc_bus fresh_object device_auto sa0_auto) = Some (device_DLHC, sa0_high)
   \<and> this_device (snd (init datasheet_regmap DLHC_acc_bus fresh_object device_auto sa0_auto)) = device_DLHC
   \<and> acc_address (snd (init datasheet_regmap DLHC_acc_bus fresh_object device_auto sa0_auto)) = 0x19
   \<and> mag_address (snd (init datasheet_regmap DLHC_acc_bus fresh_object device_auto sa0_auto)) = 0x1E
   \<and> init datasheet_regmap (\<lambda>k. if k < 4 then D_high_bus k else silent_bus k) fresh_object device_auto sa0_auto
       = init datasheet_regmap D_high_bus fresh_object device_auto sa0_auto"
proof -
  note t = init_auto_resolution [of D_high_bus datasheet_regmap fresh_object sa0_auto]
  note u = init_auto_resolution [of DLHC_acc_bus datasheet_regmap fresh_object sa0_auto]
  have 1: "snd (D_high_bus 0 D_SA0_HIGH_ADDRESS (word_of_int (WHO_AM_I datasheet_regmap))) = Some 0x49"
    by (simp add: D_high_bus_def D_SA0_HIGH_ADDRESS_def datasheet_regmap_def)
  have 2: "snd (DLHC_acc_bus 0 D_SA0_HIGH_ADDRESS (word_of_int (WHO_AM_I datasheet_regmap))) = None
        \<and> snd (DLHC_acc_bus 1 D_SA0_LOW_ADDRESS (word_of_int (WHO_AM_I datasheet_regmap))) = None
        \<and> snd (DLHC_acc_bus 2 NON_D_ACC_SA0_HIGH_ADDRESS (word_of_int (CTRL_REG1_A datasheet_regmap))) \<noteq> None"
    by (simp add: DLHC_acc_bus_def D_SA0_HIGH_ADDRESS_def D_SA0_LOW_ADDRESS_def
        NON_D_ACC_SA0_HIGH_ADDRESS_def)
  have 3: "\<forall>k address reg. k < 4 \<longrightarrow>
      (\<lambda>k. if k < 4 then D_high_bus k else silent_bus k) k address reg = D_high_bus k address reg"
    by simp
  from t [THEN conjunct2, THEN conjunct1, rule_format, OF 1]
    u [THEN conjunct2, THEN conjunct2, rule_format, OF 2]
    t [THEN conjunct1, THEN spec, THEN mp, OF 3]
  show ?thesis
    by (simp add: D_SA0_HIGH_ADDRESS_def NON_D_ACC_SA0_HIGH_ADDRESS_def NON_D_MAG_ADDRESS_def)
qed

section \<open>Evaluation on the sample inputs\<close>

lemma datasheet_regmap_sel:
  "WHO_AM_I datasheet_regmap = 0x0F" "CTRL_REG1_A datasheet_regmap = 0x20"
  "TEMP_OUT_H_M datasheet_regmap = 0x31" "TEMP_OUT_L_M datasheet_regmap = 0x32"
  "OUT_X_H_M datasheet_regmap = - 1" "DLHC_OUT_X_H_M datasheet_regmap = 0x03"
  by (simp_all add: datasheet_regmap_def)

lemma initialised_DLHC:
  "acc_address (initialised_object device_DLHC sa0_high) = 0x19"
  "mag_address (initialised_object device_DLHC sa0_high) = 0x1E"
  "this_device (initialised_object device_DLHC sa0_high) = device_DLHC"
  "out_x_h_m (initialised_object device_DLHC sa0_high) = 0x03"
  by (simp_all add: initialised_object_def init_addresses_def NON_D_ACC_SA0_HIGH_ADDRESS_def
      NON_D_MAG_ADDRESS_def datasheet_regmap_sel)

section \<open>The strap and the result of \<open>init\<close>\<close>

text \<open>
  With the device given as \<open>device_D\<close> and the strap left to \<open>init\<close>, only answers at
  \<open>D_SA0_HIGH_ADDRESS\<close> are read: two buses that agree there give the same result. For a
  \<open>device_DLM\<close> or \<open>device_DLH\<close> both accelerometer addresses are probed, and the block
  fails exactly when neither gives a byte.
\<close>

lemma init_sa0_D_high_only:
  assumes "\<forall>k reg. w' k D_SA0_HIGH_ADDRESS reg = w k D_SA0_HIGH_ADDRESS reg"
  shows "init_sa0 c w' n s device_D sa0_auto = init_sa0 c w n s device_D sa0_auto"
proof -
  have t: "testReg w' k s1 D_SA0_HIGH_ADDRESS reg = testReg w k s1 D_SA0_HIGH_ADDRESS reg" for k s1 reg
    using assms by (intro testReg_cong) simp
  show ?thesis
    by (simp add: init_sa0_def t cong: if_cong)
qed

lemma init_sa0_non_D:
  assumes "device = device_DLM \<or> device = device_DLH"
  shows "fst (init_sa0 c w n s device sa0_auto) =
     (if snd (w n NON_D_ACC_SA0_HIGH_ADDRESS (word_of_int (CTRL_REG1_A c))) \<noteq> None then Some sa0_high
      else if snd (w (n + 1) NON_D_ACC_SA0_LOW_ADDRESS (word_of_int (CTRL_REG1_A c))) \<noteq> None
      then Some sa0_low else None)"
proof -
  have d: "device \<noteq> device_D" using assms by auto
  have u: "uint b \<noteq> - 1" for b :: byte
    using uint_ge_0 [of b] by arith
  show ?thesis
    using assms d
    by (cases "snd (w n NON_D_ACC_SA0_HIGH_ADDRESS (word_of_int (CTRL_REG1_A c)))";
        cases "snd (w (Suc n) NON_D_ACC_SA0_LOW_ADDRESS (word_of_int (CTRL_REG1_A c)))")
      (simp_all add: init_sa0_def testReg_eq TEST_REG_NACK_def u)
qed

text \<open>
  C4. An LSM303D strapped low answers the identification register with \<open>0x49\<close> at
  \<open>D_SA0_LOW_ADDRESS\<close> and nowhere else. Called with \<open>device_D\<close> and \<open>sa0_auto\<close>, \<open>init\<close>
  probes \<open>D_SA0_HIGH_ADDRESS\<close> twice, never the low address, and returns \<open>false\<close>. The
  same device is resolved as \<open>(device_D, sa0_low)\<close> when the call is made with
  \<open>device_auto\<close>, and the branch for \<open>device_DLH\<close> does find a strap-low accelerometer.
\<close>

theorem init_D_sa0_auto_misses_low_strap:
  "init datasheet_regmap D_low_bus fresh_object device_D sa0_auto
     = (Some False, fresh_object\<lparr>last_status := 2\<rparr>)
   \<and> fst (init_device datasheet_regmap D_low_bus fresh_object device_auto sa0_auto)
     = Some (device_D, sa0_low)
   \<and> fst (init_sa0 datasheet_regmap DLH_low_bus 0 fresh_object device_DLH sa0_auto) = Some sa0_low"
  by (simp add: init_def init_device_def init_sa0_def testReg_eq D_low_bus_def DLH_low_bus_def
      D_SA0_HIGH_ADDRESS_def D_SA0_LOW_ADDRESS_def NON_D_ACC_SA0_HIGH_ADDRESS_def
      NON_D_ACC_SA0_LOW_ADDRESS_def D_WHO_ID_def DLM_WHO_ID_def TEST_REG_NACK_def
      datasheet_regmap_sel)

text \<open>
  \<open>init\<close> returns \<open>false\<close> exactly when one of its first two blocks gives up, and on
  every other path it reaches the end of the function without a \<open>return\<close> statement.
\<close>

lemma init_false_iff:
  "fst (init c w s device sa0) = Some False \<longleftrightarrow>
     fst (init_device c w s device sa0) = None
     \<or> (\<exists>d sa n s1. init_device c w s device sa0 = (Some (d, sa), n, s1)
            \<and> fst (init_sa0 c w n s1 d sa) = None)"
  by (auto simp: init_def split: prod.splits option.splits)

lemma init_resolved_no_value:
  assumes "init_device c w s device sa0 = (Some (d, sa), n, s1)"
    and "init_sa0 c w n s1 d sa = (Some sa', s2)"
  shows "init c w s device sa0 = (None, init_addresses c s2 d sa')"
  using assms by (simp add: init_def)

text \<open>
  C7. No path of \<open>init\<close> returns \<open>true\<close>. Where the resolution succeeds, for instance
  for \<open>device_DLHC\<close> with \<open>sa0_high\<close> given, or for an LSM303D strapped high that is
  detected, the object is set up and the function ends without returning a value.
\<close>

theorem init_success_returns_no_value:
  "fst (init c w s device sa0) \<noteq> Some True
   \<and> fst (init datasheet_regmap silent_bus fresh_object device_DLHC sa0_high) = None
   \<and> this_device (snd (init datasheet_regmap silent_bus fresh_object device_DLHC sa0_high)) = device_DLHC
   \<and> fst (init datasheet_regmap D_high_bus fresh_object device_auto sa0_auto) = None
   \<and> this_device (snd (init datasheet_regmap D_high_bus fresh_object device_auto sa0_auto)) = device_D"
proof -
  have 1: "fst (init c w s device sa0) \<noteq> Some True"
    by (rule init_never_returns_true)
  have 2: "init datasheet_regmap silent_bus fresh_object device_DLHC sa0_high
      = (None, init_addresses datasheet_regmap fresh_object device_DLHC sa0_high)"
    by (simp add: init_def init_device_def init_sa0_def)
  have 3: "init datasheet_regmap D_high_bus fresh_object device_auto sa0_auto
      = (None, init_addresses datasheet_regmap (fresh_object\<lparr>last_status := 0\<rparr>) device_D sa0_high)"
    by (simp add: init_def init_device_def init_sa0_def testReg_eq D_high_bus_def
        D_SA0_HIGH_ADDRESS_def D_WHO_ID_def datasheet_regmap_sel)
  show ?thesis
    by (simp add: 1 2 3 init_addresses_def)
qed

section \<open>Routing and translation of single register accesses\<close>

text \<open>
  When the enumerator \<open>TEMP_OUT_L_M\<close> is not zero, the condition of \<open>readReg\<close> and
  \<open>writeReg\<close> holds for every register and device: every access goes through
  \<open>readMagReg\<close> or \<open>writeMagReg\<close>.
\<close>

lemma readReg_always_mag:
  assumes "TEMP_OUT_L_M c \<noteq> 0"
  shows "readReg c w s reg = readMagReg c w s reg"
    and "writeReg c ww s reg val = writeMagReg ww s reg val"
  using assms by (simp_all add: readReg_def writeReg_def)

text \<open>
  C6. On a \<open>device_DLHC\<close>, whose accelerometer is at \<open>0x19\<close> and whose magnetometer is
  at \<open>0x1E\<close>, \<open>readReg\<close> and \<open>writeReg\<close> send the accelerometer control register
  \<open>CTRL_REG1_A\<close> (\<open>0x20\<close>), which is neither below \<open>CTRL_REG1_A\<close> nor a temperature
  register, to the magnetometer address \<open>0x1E\<close>; \<open>readAccReg\<close> sends it to \<open>0x19\<close>.
\<close>

theorem readReg_routes_all_to_magnetometer:
  "acc_address (initialised_object device_DLHC sa0_high) = 0x19
   \<and> mag_address (initialised_object device_DLHC sa0_high) = 0x1E
   \<and> CTRL_REG1_A datasheet_regmap = 0x20
   \<and> readReg datasheet_regmap request_read_bus (initialised_object device_DLHC sa0_high) 0x20
       = (0x20, (initialised_object device_DLHC sa0_high)\<lparr>last_status := 0x1E\<rparr>)
   \<and> writeReg datasheet_regmap address_write_bus (initialised_object device_DLHC sa0_high) 0x20 0x27
       = (initialised_object device_DLHC sa0_high)\<lparr>last_status := 0x1E\<rparr>
   \<and> readAccReg request_read_bus (initialised_object device_DLHC sa0_high) 0x20
       = (0x20, (initialised_object device_DLHC sa0_high)\<lparr>last_status := 0x19\<rparr>)"
proof -
  note a = initialised_DLHC and c = datasheet_regmap_sel
  show ?thesis
    by (simp add: a c readReg_def writeReg_def readMagReg_def readMagReg_translate_def
        writeMagReg_def readAccReg_def request_read_bus_def address_write_bus_def)
qed

text \<open>
  \<open>readMagReg\<close> replaces each of the six dummy ids, when they are negative and distinct,
  by the register address that \<open>init\<close> stored for it, and leaves every other register id,
  in particular every non-negative one, as it is.
\<close>

lemma readMagReg_translate_dummy:
  assumes "OUT_X_H_M c < 0" "OUT_X_L_M c < 0" "OUT_Y_H_M c < 0"
    "OUT_Y_L_M c < 0" "OUT_Z_H_M c < 0" "OUT_Z_L_M c < 0"
    and "distinct [OUT_X_H_M c, OUT_X_L_M c, OUT_Y_H_M c, OUT_Y_L_M c, OUT_Z_H_M c, OUT_Z_L_M c]"
  shows "readMagReg_translate c s (OUT_X_H_M c) = out_x_h_m s"
    and "readMagReg_translate c s (OUT_X_L_M c) = out_x_l_m s"
    and "readMagReg_translate c s (OUT_Y_H_M c) = out_y_h_m s"
    and "readMagReg_translate c s (OUT_Y_L_M c) = out_y_l_m s"
    and "readMagReg_translate c s (OUT_Z_H_M c) = out_z_h_m s"
    and "readMagReg_translate c s (OUT_Z_L_M c) = out_z_l_m s"
proof -
  have d: "p \<noteq> q \<Longrightarrow> q \<noteq> p" for p q :: int
    by simp
  from assms(7) have ne:
    "OUT_X_L_M c \<noteq> OUT_X_H_M c" "OUT_Y_H_M c \<noteq> OUT_X_H_M c" "OUT_Y_H_M c \<noteq> OUT_X_L_M c"
    "OUT_Y_L_M c \<noteq> OUT_X_H_M c" "OUT_Y_L_M c \<noteq> OUT_X_L_M c" "OUT_Y_L_M c \<noteq> OUT_Y_H_M c"
    "OUT_Z_H_M c \<noteq> OUT_X_H_M c" "OUT_Z_H_M c \<noteq> OUT_X_L_M c" "OUT_Z_H_M c \<noteq> OUT_Y_H_M c"
    "OUT_Z_H_M c \<noteq> OUT_Y_L_M c" "OUT_Z_L_M c \<noteq> OUT_X_H_M c" "OUT_Z_L_M c \<noteq> OUT_X_L_M c"
    "OUT_Z_L_M c \<noteq> OUT_Y_H_M c" "OUT_Z_L_M c \<noteq> OUT_Y_L_M c" "OUT_Z_L_M c \<noteq> OUT_Z_H_M c"
    by (simp_all add: d)
  show "readMagReg_translate c s (OUT_X_H_M c) = out_x_h_m s"
    using assms(1) by (simp add: readMagReg_translate_def)
  show "readMagReg_translate c s (OUT_X_L_M c) = out_x_l_m s"
    using assms(2) by (simp add: readMagReg_translate_def ne)
  show "readMagReg_translate c s (OUT_Y_H_M c) = out_y_h_m s"
    using assms(3) by (simp add: readMagReg_translate_def ne)
  show "readMagReg_translate c s (OUT_Y_L_M c) = out_y_l_m s"
    using assms(4) by (simp add: readMagReg_translate_def ne)
  show "readMagReg_translate c s (OUT_Z_H_M c) = out_z_h_m s"
    using assms(5) by (simp add: readMagReg_translate_def ne)
  show "readMagReg_translate c s (OUT_Z_L_M c) = out_z_l_m s"
    using assms(6) by (simp add: readMagReg_translate_def ne)
qed

lemma readMagReg_translate_other:
  "0 \<le> reg \<Longrightarrow> readMagReg_translate c s reg = reg"
  "reg \<notin> {OUT_X_H_M c, OUT_X_L_M c, OUT_Y_H_M c, OUT_Y_L_M c, OUT_Z_H_M c, OUT_Z_L_M c}
     \<Longrightarrow> readMagReg_translate c s reg = reg"
  by (simp_all add: readMagReg_translate_def)

lemma readMagReg_request:
  "readMagReg c w s reg =
     (snd (w (mag_address s) (word_of_int (readMagReg_translate c s reg))),
      s\<lparr>last_status := fst (w (mag_address s) (word_of_int (readMagReg_translate c s reg)))\<rparr>)"
  by (simp add: readMagReg_def Let_def split: prod.split)

text \<open>
  C10. On a \<open>device_DLHC\<close>, \<open>readReg\<close> of the dummy id \<open>OUT_X_H_M\<close> (\<open>-1\<close>) sends the
  translated register address \<open>0x03\<close>, but \<open>writeReg\<close> of the same id sends the byte
  \<open>0xFF\<close>, the low byte of \<open>-1\<close>: \<open>writeMagReg\<close> does not translate.
\<close>

theorem writeReg_sends_dummy_id_untranslated:
  "OUT_X_H_M datasheet_regmap = - 1
   \<and> out_x_h_m (initialised_object device_DLHC sa0_high) = 0x03
   \<and> fst (readReg datasheet_regmap request_read_bus (initialised_object device_DLHC sa0_high) (- 1))
       = 0x03
   \<and> writeReg datasheet_regmap register_write_bus (initialised_object device_DLHC sa0_high) (- 1) 0
       = (initialised_object device_DLHC sa0_high)\<lparr>last_status := 0xFF\<rparr>"
proof -
  note a = initialised_DLHC and c = datasheet_regmap_sel
  show ?thesis
    by (simp add: a c readReg_def writeReg_def readMagReg_def readMagReg_translate_def
        writeMagReg_def request_read_bus_def register_write_bus_def)
qed

end
